theory Spec2Isabelle
  imports Complex_Main
begin

section \<open>Python values, errors and numpy arrays\<close>

text \<open>
  The module \<^verbatim>\<open>_datatypes/series.py\<close> is modelled function by function. Every
  \<^verbatim>\<open>raise\<close> of the source, and every exception the interpreter or numpy raises on
  the way, is a value of the type \<open>error\<close>. The source raises the plain class
  \<^verbatim>\<open>Exception\<close> with a message; each message has a constructor of its own.
  \<^verbatim>\<open>np.int\<close> and \<^verbatim>\<open>np.float\<close> are the builtin \<^verbatim>\<open>int\<close> and
  \<^verbatim>\<open>float\<close>, as in the numpy releases the module was written for.

  Python floats are read as real numbers, and a product or quotient of floats as the
  exact one. The code rounds: \<^verbatim>\<open>0.1 * 3\<close> is \<^verbatim>\<open>0.30000000000000004\<close>, and
  \<^verbatim>\<open>int(1./(1./93))\<close> is 92. Comparisons are the same in both readings, and so
  is every product or quotient that a double holds exactly; the evaluations below
  use the spacings 1/2 and 1/4, which are exact, and the spacing 1/10, which is only
  stored and compared with itself.

  A numpy array of numbers is the list of its numbers, without its dtype:
  \<^verbatim>\<open>np.insert\<close> is modelled on arrays that store the inserted number as it is
  given. That is every number in a float array and every whole number in an integer
  array; into an integer array numpy truncates a fraction (the key 5.5 inserted into
  \<open>[5]\<close> is stored as 5).
\<close>

datatype error =
    ShapeError            \<comment> \<open>\<^verbatim>\<open>Exception('Shape error: ...')\<close>\<close>
  | IncompatibleSize      \<comment> \<open>\<^verbatim>\<open>Exception('Incompatible size ...')\<close>\<close>
  | IncompatibleDeltax    \<comment> \<open>\<^verbatim>\<open>Exception('Incompatible deltax ...')\<close>\<close>
  | InvalidVariable       \<comment> \<open>\<^verbatim>\<open>Exception('Invalid variable ...')\<close>\<close>
  | IncompatibleEpoch     \<comment> \<open>\<^verbatim>\<open>Exception('Incompatible shape for epoch ...')\<close>\<close>
  | NegativeStart         \<comment> \<open>\<^verbatim>\<open>ValueError('Negative start index ...')\<close>\<close>
  | InvalidIndex          \<comment> \<open>\<^verbatim>\<open>ValueError('Invalid index for Series ...')\<close>\<close>
  | ValueError            \<comment> \<open>a \<^verbatim>\<open>ValueError\<close> raised inside numpy\<close>
  | IndexError
  | TypeError
  | AttributeError
  | ZeroDivisionError
  | OverflowError

text \<open>
  A numpy array is its shape and its elements in row-major order; it is well formed
  when it has as many elements as its shape says. The element type is a parameter: the
  module never computes with the samples.
\<close>

record 'a ndarray =
  shape :: "nat list"
  flat :: "'a list"

definition wf_ndarray :: "'a ndarray \<Rightarrow> bool" where
  "wf_ndarray a = (length (flat a) = prod_list (shape a))"

definition np_array1 :: "'a list \<Rightarrow> 'a ndarray" where
  \<comment> \<open>\<^verbatim>\<open>np.array(xs)\<close> for a flat list \<open>xs\<close>\<close>
  "np_array1 xs = \<lparr>shape = [length xs], flat = xs\<rparr>"

definition np_size :: "'a ndarray \<Rightarrow> nat" where
  \<comment> \<open>\<^verbatim>\<open>a.size\<close>: the number of elements\<close>
  "np_size a = prod_list (shape a)"

definition np_len :: "'a ndarray \<Rightarrow> error + nat" where
  \<comment> \<open>\<^verbatim>\<open>len(a)\<close>: the extent of the first axis; a 0-d array is unsized\<close>
  "np_len a = (case shape a of [] \<Rightarrow> Inl TypeError | n # _ \<Rightarrow> Inr n)"

definition np_reshape_row :: "'a ndarray \<Rightarrow> 'a ndarray" where
  \<comment> \<open>\<^verbatim>\<open>a.reshape(1, a.size)\<close>\<close>
  "np_reshape_row a = \<lparr>shape = [1, np_size a], flat = flat a\<rparr>"

definition np_row :: "'a ndarray \<Rightarrow> nat \<Rightarrow> 'a list" where
  \<comment> \<open>the elements of \<^verbatim>\<open>a[i]\<close>, the \<open>i\<close>-th block along the first axis\<close>
  "np_row a i = (let b = prod_list (tl (shape a)) in take b (drop (i * b) (flat a)))"

definition np_take :: "'a ndarray \<Rightarrow> nat list \<Rightarrow> 'a ndarray" where
  \<comment> \<open>the blocks at the positions \<open>idxs\<close> along the first axis, in that order\<close>
  "np_take a idxs = \<lparr>shape = length idxs # tl (shape a), flat = concat (map (np_row a) idxs)\<rparr>"

text \<open>
  Python's slice arithmetic (\<^verbatim>\<open>PySlice_Unpack\<close>, \<^verbatim>\<open>PySlice_AdjustIndices\<close>):
  a missing or out-of-range bound is clamped, a negative one counts from the end, and a
  zero step is a \<^verbatim>\<open>ValueError\<close>.
\<close>

definition slice_adjust :: "int \<Rightarrow> int \<Rightarrow> int \<Rightarrow> int" where
  "slice_adjust v n step =
     (if v < 0 then (if v + n < 0 then (if step < 0 then - 1 else 0) else v + n)
      else if n \<le> v then (if step < 0 then n - 1 else n)
      else v)"

definition slice_indices :: "int option \<Rightarrow> int option \<Rightarrow> int option \<Rightarrow> nat \<Rightarrow> error + nat list" where
  "slice_indices start stop step len =
     (let st = (case step of None \<Rightarrow> 1 | Some s \<Rightarrow> s); n = int len in
      if st = 0 then Inl ValueError
      else
        let lo = (case start of None \<Rightarrow> (if st < 0 then n - 1 else 0) | Some v \<Rightarrow> slice_adjust v n st);
            hi = (case stop of None \<Rightarrow> (if st < 0 then - 1 else n) | Some v \<Rightarrow> slice_adjust v n st);
            cnt = (if st < 0 then (if hi < lo then (lo - hi - 1) div (- st) + 1 else 0)
                   else (if lo < hi then (hi - lo - 1) div st + 1 else 0))
        in Inr (map (\<lambda>k. nat (lo + int k * st)) [0..<nat cnt]))"

definition np_getslice :: "'a ndarray \<Rightarrow> int option \<Rightarrow> int option \<Rightarrow> int option \<Rightarrow> error + 'a ndarray" where
  \<comment> \<open>\<^verbatim>\<open>a[start:stop:step]\<close>: basic slicing of the first axis\<close>
  "np_getslice a start stop step =
     (case shape a of
        [] \<Rightarrow> Inl IndexError
      | n # _ \<Rightarrow>
          (case slice_indices start stop step n of
             Inl e \<Rightarrow> Inl e
           | Inr idxs \<Rightarrow> Inr (np_take a idxs)))"

definition np_in_range :: "nat \<Rightarrow> int \<Rightarrow> bool" where
  "np_in_range n i = (- int n \<le> i \<and> i < int n)"

definition np_norm_index :: "nat \<Rightarrow> int \<Rightarrow> nat" where
  \<comment> \<open>a negative position counts from the end\<close>
  "np_norm_index n i = nat (if i < 0 then i + int n else i)"

definition np_fancy :: "'a ndarray \<Rightarrow> int list \<Rightarrow> error + 'a ndarray" where
  \<comment> \<open>\<^verbatim>\<open>a[index]\<close> for a one-dimensional integer array \<open>index\<close>\<close>
  "np_fancy a idx =
     (case shape a of
        [] \<Rightarrow> Inl IndexError
      | n # _ \<Rightarrow>
          if list_all (np_in_range n) idx then Inr (np_take a (map (np_norm_index n) idx))
          else Inl IndexError)"

definition np_gradient :: "int list \<Rightarrow> error + real list" where
  \<comment> \<open>\<^verbatim>\<open>np.gradient(index)\<close>: one-sided differences at the two ends, central ones inside\<close>
  "np_gradient xs =
     (let n = length xs in
      if n < 2 then Inl ValueError
      else Inr (map (\<lambda>i. if i = 0 then real_of_int (xs ! 1 - xs ! 0)
                           else if i = n - 1 then real_of_int (xs ! (n - 1) - xs ! (n - 2))
                           else real_of_int (xs ! (i + 1) - xs ! (i - 1)) / 2) [0..<n]))"

definition py_max :: "real list \<Rightarrow> real" where
  "py_max xs = fold max (tl xs) (hd xs)"

definition py_min :: "real list \<Rightarrow> real" where
  "py_min xs = fold min (tl xs) (hd xs)"

text \<open>
  A product of a float and a Python \<^verbatim>\<open>int\<close> converts the \<^verbatim>\<open>int\<close> to a float
  first; an \<^verbatim>\<open>int\<close> that rounds beyond the largest double (from \<open>2^1024 - 2^970\<close>
  on) raises \<^verbatim>\<open>OverflowError\<close>.
\<close>

definition py_float_of_int :: "int \<Rightarrow> error + real" where
  "py_float_of_int k =
     (if \<bar>k\<bar> < 2 ^ 1024 - 2 ^ 970 then Inr (real_of_int k) else Inl OverflowError)"

section \<open>Series\<close>

text \<open>
  The spacing is stored as it is passed (the constructor does not look at it), so its
  type is a parameter: a number for the sequences a caller builds, possibly
  \<^verbatim>\<open>None\<close> for the one \<^verbatim>\<open>MultiSeries.append\<close> wraps around a raw buffer.
  The bounds and the step of a slice are integers or \<^verbatim>\<open>None\<close>, and an index array
  is a one-dimensional array of integers.
\<close>

record ('a, 'd) Series =
  s_value :: "'a ndarray"
  s_deltax :: 'd
  s_info :: string

definition Series_init :: "'a ndarray \<Rightarrow> 'd \<Rightarrow> string \<Rightarrow> error + ('a, 'd) Series" where
  \<comment> \<open>\<^verbatim>\<open>if (len(value.shape) != 1 and value.shape[0] != 1): raise\<close>; on a 0-d array
      the second test reads \<^verbatim>\<open>shape[0]\<close> of an empty tuple\<close>
  "Series_init v deltax info =
     (case shape v of
        [] \<Rightarrow> Inl IndexError
      | n # _ \<Rightarrow>
          if length (shape v) \<noteq> 1 \<and> n \<noteq> 1 then Inl ShapeError
          else Inr \<lparr>s_value = v, s_deltax = deltax, s_info = info\<rparr>)"

definition Series_len :: "('a, 'd, 'z) Series_scheme \<Rightarrow> error + nat" where
  "Series_len self = np_len (s_value self)"

definition Series_size :: "('a, 'd, 'z) Series_scheme \<Rightarrow> nat" where
  "Series_size self = np_size (s_value self)"

definition Series_length :: "('a, real) Series \<Rightarrow> error + real" where
  \<comment> \<open>\<^verbatim>\<open>self._deltax * len(self)\<close>, the float product read as the exact one\<close>
  "Series_length self =
     (case Series_len self of Inl e \<Rightarrow> Inl e | Inr n \<Rightarrow> Inr (s_deltax self * real n))"

datatype pyindex =
    IntIdx int
  | SliceIdx "int option" "int option" "int option"
  | ArrayIdx "int list"
  | OtherIdx

datatype 'a getres =
    Scalar 'a
  | RawArray "'a ndarray"
  | Wrapped "('a, real) Series"
  | PyNone

definition Series_getslice :: "('a, real) Series \<Rightarrow> pyindex \<Rightarrow> error + 'a getres" where
  "Series_getslice self index =
     (case index of
        SliceIdx start stop step \<Rightarrow>
          if (case start of None \<Rightarrow> False | Some v \<Rightarrow> v < 0) then Inl NegativeStart
          else
            (case (case step of
                     Some st \<Rightarrow>
                       (case py_float_of_int st of
                          Inl e \<Rightarrow> Inl e
                        | Inr x \<Rightarrow> Inr (s_deltax self * x))
                   | None \<Rightarrow> Inr (s_deltax self)) of
               Inl e \<Rightarrow> Inl e
             | Inr new_deltax \<Rightarrow>
                 (case np_getslice (s_value self) start stop step of
                    Inl e \<Rightarrow> Inl e
                  | Inr v \<Rightarrow>
                      (case Series_init v new_deltax ''Series'' of
                         Inl e \<Rightarrow> Inl e
                       | Inr s \<Rightarrow> Inr (Wrapped s))))
      | ArrayIdx idx \<Rightarrow>
          if length idx = 1 then
            (case np_fancy (s_value self) idx of Inl e \<Rightarrow> Inl e | Inr v \<Rightarrow> Inr (RawArray v))
          else
            (case np_gradient idx of
               Inl e \<Rightarrow> Inl e
             | Inr grad \<Rightarrow>
                 if py_max grad \<noteq> py_min grad then Inl InvalidIndex
                 else
                   let step = idx ! 1 - idx ! 0;
                       new_deltax = s_deltax self * real_of_int step
                   in (case np_fancy (s_value self) idx of
                         Inl e \<Rightarrow> Inl e
                       | Inr v \<Rightarrow>
                           (case Series_init v new_deltax ''Series'' of
                              Inl e \<Rightarrow> Inl e
                            | Inr s \<Rightarrow> Inr (Wrapped s))))
      | _ \<Rightarrow> Inr PyNone)"

definition np_item :: "'a ndarray \<Rightarrow> int \<Rightarrow> error + 'a getres" where
  \<comment> \<open>\<^verbatim>\<open>a[key]\<close> for an integer: an element of a 1-d array, a sub-array otherwise\<close>
  "np_item a k =
     (case shape a of
        [] \<Rightarrow> Inl IndexError
      | n # rest \<Rightarrow>
          if \<not> np_in_range n k then Inl IndexError
          else if rest = [] then Inr (Scalar (flat a ! np_norm_index n k))
          else Inr (RawArray \<lparr>shape = rest, flat = np_row a (np_norm_index n k)\<rparr>))"

definition Series_getitem :: "('a, real) Series \<Rightarrow> pyindex \<Rightarrow> error + 'a getres" where
  "Series_getitem self key =
     (case key of IntIdx k \<Rightarrow> np_item (s_value self) k | _ \<Rightarrow> Series_getslice self key)"

text \<open>
  \<^verbatim>\<open>resample\<close> either returns the receiver itself or builds a new object. The
  result says which: \<open>Self\<close> is the receiver, the very object the method was called
  on, and \<open>New s\<close> is an object that did not exist before the call. The resampling
  kernel lives in \<^verbatim>\<open>_core\<close>, outside this module, and is a parameter here.
\<close>

datatype 'o returned = Self | New 'o

definition Series_resample ::
  "('a ndarray \<Rightarrow> real \<Rightarrow> real \<Rightarrow> 'a ndarray) \<Rightarrow> ('a, real) Series \<Rightarrow> real
     \<Rightarrow> error + ('a, real) Series returned" where
  "Series_resample resample self new_deltax =
     (if new_deltax \<noteq> s_deltax self then
        if s_deltax self = 0 \<or> new_deltax = 0 then Inl ZeroDivisionError
        else
          let new = resample (s_value self) (1 / s_deltax self) (1 / new_deltax)
          in (case Series_init new new_deltax (s_info self) of
                Inl e \<Rightarrow> Inl e
              | Inr s \<Rightarrow> Inr (New s))
      else Inr Self)"

section \<open>TimeSeries\<close>

record 'a TimeSeries = "('a, real) Series" +
  s_epoch :: real

definition TimeSeries_init :: "'a ndarray \<Rightarrow> real \<Rightarrow> real \<Rightarrow> string \<Rightarrow> error + 'a TimeSeries" where
  \<comment> \<open>\<^verbatim>\<open>super().__init__(value, 1./fs, info = info)\<close>, then \<^verbatim>\<open>self._epoch = epoch\<close>\<close>
  "TimeSeries_init v epoch fs info =
     (if fs = 0 then Inl ZeroDivisionError
      else
        (case Series_init v (1 / fs) info of
           Inl e \<Rightarrow> Inl e
         | Inr s \<Rightarrow>
             Inr \<lparr>s_value = s_value s, s_deltax = s_deltax s, s_info = s_info s, s_epoch = epoch\<rparr>))"

definition py_int :: "real \<Rightarrow> int" where
  \<comment> \<open>\<^verbatim>\<open>int(x)\<close> truncates towards zero\<close>
  "py_int x = (if 0 \<le> x then \<lfloor>x\<rfloor> else \<lceil>x\<rceil>)"

definition TimeSeries_fs :: "'a TimeSeries \<Rightarrow> error + int" where
  \<comment> \<open>\<^verbatim>\<open>int(1./self._deltax)\<close>, the quotient read as the exact one: where the spacing
      is \<open>1 / fs\<close> this is \<open>fs\<close>, while the code's rounded quotient can fall just
      below \<open>fs\<close> and be truncated to \<open>fs - 1\<close>\<close>
  "TimeSeries_fs self =
     (if s_deltax self = 0 then Inl ZeroDivisionError else Inr (py_int (1 / s_deltax self)))"

definition TimeSeries_info :: "'a TimeSeries \<Rightarrow> error + string" where
  \<comment> \<open>\<^verbatim>\<open>self.info\<close>: the classes store the label as \<^verbatim>\<open>_info\<close> and declare no
      attribute or property \<^verbatim>\<open>info\<close>, so the lookup raises\<close>
  "TimeSeries_info self = Inl AttributeError"

definition TimeSeries_resample ::
  "('a ndarray \<Rightarrow> real \<Rightarrow> real \<Rightarrow> 'a ndarray) \<Rightarrow> 'a TimeSeries \<Rightarrow> real
     \<Rightarrow> error + 'a TimeSeries returned" where
  \<comment> \<open>the new object would be built with \<^verbatim>\<open>fs=self.fs\<close>, the rate before the call\<close>
  "TimeSeries_resample resample self fs_new =
     (case TimeSeries_fs self of
        Inl e \<Rightarrow> Inl e
      | Inr fs \<Rightarrow>
          if fs_new \<noteq> real_of_int fs then
            let new = resample (s_value self) (real_of_int fs) fs_new
            in (case TimeSeries_info self of
                  Inl e \<Rightarrow> Inl e
                | Inr info \<Rightarrow>
                    (case TimeSeries_init new (s_epoch self) (real_of_int fs) info of
                       Inl e \<Rightarrow> Inl e
                     | Inr t \<Rightarrow> Inr (New t)))
          else Inr Self)"

section \<open>MultiSeries\<close>

text \<open>
  A constructor argument that may be \<^verbatim>\<open>None\<close>, a Python \<^verbatim>\<open>int\<close> or
  \<^verbatim>\<open>float\<close>, or a flat list of numbers (the keys \<^verbatim>\<open>y\<close>, the epochs).
\<close>

datatype pyarg = ArgNone | ArgInt int | ArgFloat real | ArgList "real list"

definition py_as_list :: "pyarg \<Rightarrow> error + real list" where
  \<comment> \<open>a scalar is wrapped in a list; \<^verbatim>\<open>np.asarray(None)\<close> is a 0-d array, whose
      \<^verbatim>\<open>len\<close> raises\<close>
  "py_as_list y =
     (case y of
        ArgNone \<Rightarrow> Inl TypeError
      | ArgInt i \<Rightarrow> Inr [real_of_int i]
      | ArgFloat x \<Rightarrow> Inr [x]
      | ArgList xs \<Rightarrow> Inr xs)"

text \<open>
  \<^verbatim>\<open>_deltax\<close> and \<^verbatim>\<open>_y\<close> are \<^verbatim>\<open>None\<close> in an empty container.
\<close>

record 'a MultiSeries =
  m_array :: "'a ndarray"
  m_deltax :: "real option"
  m_y :: "real list option"
  m_isempty :: bool

definition MultiSeries_init :: "'a ndarray \<Rightarrow> real \<Rightarrow> pyarg \<Rightarrow> error + 'a MultiSeries" where
  \<comment> \<open>\<^verbatim>\<open>_isempty\<close> is assigned for a 1-d array only; for any other array the test
      \<^verbatim>\<open>if not self._isempty\<close> reads a missing attribute\<close>
  "MultiSeries_init array deltax y =
     (case shape array of
        [n] \<Rightarrow>
          if 0 < n then
            (case py_as_list y of
               Inl e \<Rightarrow> Inl e
             | Inr ys \<Rightarrow>
                 if 0 < length ys then
                   if length ys \<noteq> 1 then Inl IncompatibleSize
                   else Inr \<lparr>m_array = np_reshape_row array, m_deltax = Some deltax,
                             m_y = Some ys, m_isempty = False\<rparr>
                 else Inl InvalidVariable)
          else Inr \<lparr>m_array = np_array1 [], m_deltax = None, m_y = None, m_isempty = True\<rparr>
      | _ \<Rightarrow> Inl AttributeError)"

definition MultiSeries_ysize :: "('a, 'z) MultiSeries_scheme \<Rightarrow> error + nat" where
  \<comment> \<open>\<^verbatim>\<open>self.shape[0]\<close>\<close>
  "MultiSeries_ysize self =
     (case shape (m_array self) of [] \<Rightarrow> Inl IndexError | r # _ \<Rightarrow> Inr r)"

definition MultiSeries_xsize :: "('a, 'z) MultiSeries_scheme \<Rightarrow> error + nat" where
  \<comment> \<open>\<^verbatim>\<open>self.shape[1]\<close>\<close>
  "MultiSeries_xsize self =
     (case shape (m_array self) of r # c # _ \<Rightarrow> Inr c | _ \<Rightarrow> Inl IndexError)"

text \<open>
  \<^verbatim>\<open>np.insert(arr, idx, values, axis=0)\<close> and \<^verbatim>\<open>arr[idx,:] = values\<close> for the
  two-dimensional array of a container. numpy reads \<open>values\<close> with at least two
  dimensions, inserts as many rows as its first axis is long, and assigns by
  broadcasting, after dropping leading axes of length one that the target does not have.
  The array of a container that is not empty has two dimensions (the constructor and
  the appends reshape and insert rows); the two functions refuse any other array.
  The samples are stored as they are given (numpy casts them to the dtype of the
  array they are inserted into).
\<close>

fun strip_ones :: "nat \<Rightarrow> nat list \<Rightarrow> nat list" where
  "strip_ones k (d # ds) = (if k < length (d # ds) \<and> d = 1 then strip_ones k ds else d # ds)"
| "strip_ones k [] = []"

definition np_broadcast_rows :: "nat \<Rightarrow> 'a ndarray \<Rightarrow> error + 'a list list" where
  "np_broadcast_rows c values =
     (let s1 = replicate (2 - length (shape values)) 1 @ shape values;
          numnew = hd s1
      in (case strip_ones 2 s1 of
            [a, b] \<Rightarrow>
              if (a = numnew \<or> a = 1) \<and> (b = c \<or> b = 1) then
                Inr (map (\<lambda>j. let src = take b (drop ((if a = 1 then 0 else j) * b) (flat values))
                               in if b = c then src else replicate c (hd src)) [0..<numnew])
              else Inl ValueError
          | _ \<Rightarrow> Inl ValueError))"

definition np_insert_axis0 :: "'a ndarray \<Rightarrow> nat \<Rightarrow> 'a ndarray \<Rightarrow> error + 'a ndarray" where
  "np_insert_axis0 arr idx values =
     (case shape arr of
        [r, c] \<Rightarrow>
          if r < idx then Inl IndexError
          else
            (case np_broadcast_rows c values of
               Inl e \<Rightarrow> Inl e
             | Inr rows \<Rightarrow>
                 Inr \<lparr>shape = [r + length rows, c],
                      flat = take (idx * c) (flat arr) @ concat rows @ drop (idx * c) (flat arr)\<rparr>)
      | _ \<Rightarrow> Inl ValueError)"

definition np_broadcast_row :: "nat \<Rightarrow> 'a ndarray \<Rightarrow> error + 'a list" where
  "np_broadcast_row c values =
     (case strip_ones 1 (shape values) of
        [] \<Rightarrow> Inr (replicate c (hd (flat values)))
      | [b] \<Rightarrow>
          if b = c then Inr (flat values)
          else if b = 1 then Inr (replicate c (hd (flat values)))
          else Inl ValueError
      | _ \<Rightarrow> Inl ValueError)"

definition np_set_row :: "'a ndarray \<Rightarrow> nat \<Rightarrow> 'a ndarray \<Rightarrow> error + 'a ndarray" where
  "np_set_row arr idx values =
     (case shape arr of
        [r, c] \<Rightarrow>
          if r \<le> idx then Inl IndexError
          else
            (case np_broadcast_row c values of
               Inl e \<Rightarrow> Inl e
             | Inr row \<Rightarrow>
                 Inr (arr\<lparr>flat := take (idx * c) (flat arr) @ row @ drop (idx * c + c) (flat arr)\<rparr>))
      | _ \<Rightarrow> Inl IndexError)"

definition np_insert1 :: "real list \<Rightarrow> nat \<Rightarrow> real \<Rightarrow> error + real list" where
  \<comment> \<open>\<^verbatim>\<open>np.insert(xs, idx, v)\<close> on a 1-d array that stores \<open>v\<close> as it is given\<close>
  "np_insert1 xs idx v =
     (if length xs < idx then Inl IndexError else Inr (take idx xs @ [v] @ drop idx xs))"

fun where_first :: "real list \<Rightarrow> real \<Rightarrow> nat option" where
  \<comment> \<open>\<^verbatim>\<open>np.where(ys - y >= 0)[0][0]\<close>: the first position whose key is at least \<open>y\<close>\<close>
  "where_first [] y = None"
| "where_first (k # ks) y =
     (if 0 \<le> k - y then Some 0 else map_option Suc (where_first ks y))"

text \<open>
  The key of an append: a Python \<^verbatim>\<open>int\<close>, a \<^verbatim>\<open>float\<close>, or an object that is
  neither and does not compare with numbers (\<^verbatim>\<open>None\<close>, a string).
\<close>

datatype pykey = KeyInt int | KeyFloat real | KeyOther

definition isinstance_int :: "pykey \<Rightarrow> bool" where
  "isinstance_int y = (case y of KeyInt _ \<Rightarrow> True | _ \<Rightarrow> False)"

definition isinstance_float :: "pykey \<Rightarrow> bool" where
  "isinstance_float y = (case y of KeyFloat _ \<Rightarrow> True | _ \<Rightarrow> False)"

definition key_number :: "pykey \<Rightarrow> error + real" where
  \<comment> \<open>the key as an operand of \<^verbatim>\<open>>\<close>, \<^verbatim>\<open>-\<close> and \<^verbatim>\<open>==\<close> with a float\<close>
  "key_number y =
     (case y of KeyInt i \<Rightarrow> Inr (real_of_int i) | KeyFloat x \<Rightarrow> Inr x | KeyOther \<Rightarrow> Inl TypeError)"

datatype 'a series_arg = SeriesObj "('a, real option) Series" | RawBuf "'a ndarray"

definition MultiSeries_insert_at ::
  "'a MultiSeries \<Rightarrow> ('a, real option) Series \<Rightarrow> real list \<Rightarrow> real \<Rightarrow> nat
     \<Rightarrow> 'a MultiSeries \<times> error option" where
  \<comment> \<open>\<^verbatim>\<open>self._array = np.insert(...)\<close>, then \<^verbatim>\<open>self._y = np.insert(...)\<close>\<close>
  "MultiSeries_insert_at self series ys k idx =
     (case np_insert_axis0 (m_array self) idx (s_value series) of
        Inl e \<Rightarrow> (self, Some e)
      | Inr arr \<Rightarrow>
          (case np_insert1 ys idx k of
             Inl e \<Rightarrow> (self\<lparr>m_array := arr\<rparr>, Some e)
           | Inr ys' \<Rightarrow> (self\<lparr>m_array := arr, m_y := Some ys'\<rparr>, None)))"

definition MultiSeries_place ::
  "'a MultiSeries \<Rightarrow> ('a, real option) Series \<Rightarrow> real list \<Rightarrow> pykey
     \<Rightarrow> 'a MultiSeries \<times> error option" where
  \<comment> \<open>\<^verbatim>\<open>if y > self._y[-1]: ... else: ...\<close>, for the key array \<open>ys\<close>\<close>
  "MultiSeries_place self series ys y =
     (if ys = [] then (self, Some IndexError)
      else
        (case key_number y of
           Inl e \<Rightarrow> (self, Some e)
         | Inr k \<Rightarrow>
             if last ys < k then
               (case MultiSeries_ysize self of
                  Inl e \<Rightarrow> (self, Some e)
                | Inr idx \<Rightarrow> MultiSeries_insert_at self series ys k idx)
             else
               (case where_first ys k of
                  None \<Rightarrow> (self, Some IndexError)
                | Some idx \<Rightarrow>
                    if ys ! idx = k then
                      (case np_set_row (m_array self) idx (s_value series) of
                         Inl e \<Rightarrow> (self, Some e)
                       | Inr arr \<Rightarrow> (self\<lparr>m_array := arr\<rparr>, None))
                    else MultiSeries_insert_at self series ys k idx)))"

definition MultiSeries_insert ::
  "'a MultiSeries \<Rightarrow> ('a, real option) Series \<Rightarrow> pykey \<Rightarrow> 'a MultiSeries \<times> error option" where
  \<comment> \<open>the branch \<^verbatim>\<open>if not self._isempty\<close> of \<^verbatim>\<open>append\<close>\<close>
  "MultiSeries_insert self series y =
     (case Series_len series of
        Inl e \<Rightarrow> (self, Some e)
      | Inr n \<Rightarrow>
          (case MultiSeries_xsize self of
             Inl e \<Rightarrow> (self, Some e)
           | Inr xsize \<Rightarrow>
               if n \<noteq> xsize then (self, Some IncompatibleSize)
               else if s_deltax series \<noteq> m_deltax self then (self, Some IncompatibleDeltax)
               else
                 (case m_y self of
                    None \<Rightarrow> (self, Some TypeError)
                  | Some ys \<Rightarrow> MultiSeries_place self series ys y)))"

definition MultiSeries_append ::
  "'a MultiSeries \<Rightarrow> 'a series_arg \<Rightarrow> pykey \<Rightarrow> 'a MultiSeries \<times> error option" where
  \<comment> \<open>the state after the call, and the exception if the call raised one\<close>
  "MultiSeries_append self arg y =
     (case (case arg of SeriesObj s \<Rightarrow> Inr s | RawBuf v \<Rightarrow> Series_init v (m_deltax self) ''Series'') of
        Inl e \<Rightarrow> (self, Some e)
      | Inr series \<Rightarrow>
          if \<not> m_isempty self then MultiSeries_insert self series y
          else
            let sz = Series_size series;
                self1 = self\<lparr>m_deltax := s_deltax series\<rparr>;
                self2 = self1\<lparr>m_array := np_reshape_row (s_value series)\<rparr>
            in if \<not> isinstance_int y \<or> \<not> isinstance_float y then (self2, Some TypeError)
               else
                 (case key_number y of
                    Inl e \<Rightarrow> (self2, Some e)
                  | Inr k \<Rightarrow> (self2\<lparr>m_y := Some [k]\<rparr>, None)))"

section \<open>TimeFreqSpectrum\<close>

text \<open>
  \<^verbatim>\<open>_epoch\<close> is assigned by the constructor of a non-empty spectrum and by
  \<^verbatim>\<open>append\<close>; an empty spectrum has no such attribute. \<^verbatim>\<open>_info\<close> is read by
  \<^verbatim>\<open>__iter__\<close>, and no method of \<^verbatim>\<open>MultiSeries\<close> or \<^verbatim>\<open>TimeFreqSpectrum\<close>
  assigns it: the constructor takes \<^verbatim>\<open>info\<close> and drops it. An attribute that is
  missing is \<open>None\<close>.
\<close>

record 'a TimeFreqSpectrum = "'a MultiSeries" +
  m_epoch :: "real list option"
  m_info :: "string option"

definition TimeFreqSpectrum_of :: "'a MultiSeries \<Rightarrow> real list option \<Rightarrow> 'a TimeFreqSpectrum" where
  "TimeFreqSpectrum_of m ep =
     \<lparr>m_array = m_array m, m_deltax = m_deltax m, m_y = m_y m, m_isempty = m_isempty m,
      m_epoch = ep, m_info = None\<rparr>"

definition TimeFreqSpectrum_init ::
  "'a ndarray \<Rightarrow> pyarg \<Rightarrow> real \<Rightarrow> pyarg \<Rightarrow> string \<Rightarrow> error + 'a TimeFreqSpectrum" where
  "TimeFreqSpectrum_init array epoch fs freqs info =
     (if fs = 0 then Inl ZeroDivisionError
      else
        (case MultiSeries_init array (1 / fs) freqs of
           Inl e \<Rightarrow> Inl e
         | Inr m \<Rightarrow>
             if \<not> m_isempty m then
               (case py_as_list epoch of
                  Inl e \<Rightarrow> Inl e
                | Inr es \<Rightarrow>
                    (case MultiSeries_ysize m of
                       Inl e \<Rightarrow> Inl e
                     | Inr ysize \<Rightarrow>
                         if length es = 1 then
                           Inr (TimeFreqSpectrum_of m (Some (replicate ysize (es ! 0))))
                         else if length es = ysize then Inr (TimeFreqSpectrum_of m (Some es))
                         else Inl IncompatibleEpoch))
             else Inr (TimeFreqSpectrum_of m None)))"

definition CreateEmptySpectrum :: "error + 'a TimeFreqSpectrum" where
  "CreateEmptySpectrum = TimeFreqSpectrum_init (np_array1 []) ArgNone 1 ArgNone ''TimeFreqSpectrum''"

definition TimeFreqSpectrum_fs :: "'a TimeFreqSpectrum \<Rightarrow> error + real" where
  \<comment> \<open>\<^verbatim>\<open>1./self.deltax\<close>\<close>
  "TimeFreqSpectrum_fs self =
     (case m_deltax self of
        None \<Rightarrow> Inl TypeError
      | Some d \<Rightarrow> if d = 0 then Inl ZeroDivisionError else Inr (1 / d))"

definition np_row2 :: "'a ndarray \<Rightarrow> nat \<Rightarrow> error + 'a ndarray" where
  \<comment> \<open>\<^verbatim>\<open>arr[i,:]\<close> for \<open>i\<close> taken from a \<^verbatim>\<open>range\<close>\<close>
  "np_row2 arr i =
     (case shape arr of
        [r, c] \<Rightarrow> if i < r then Inr \<lparr>shape = [c], flat = np_row arr i\<rparr> else Inl IndexError
      | _ \<Rightarrow> Inl IndexError)"

definition TimeFreqSpectrum_item :: "'a TimeFreqSpectrum \<Rightarrow> nat \<Rightarrow> error + (real \<times> 'a TimeSeries)" where
  \<comment> \<open>the pair \<^verbatim>\<open>(self.frequencies[i], TimeSeries(self._array[i,:], self.epoch[i],
      self.fs, info = self._info))\<close>, its parts evaluated from left to right\<close>
  "TimeFreqSpectrum_item self i =
     (case m_y self of
        None \<Rightarrow> Inl TypeError
      | Some ys \<Rightarrow>
          if length ys \<le> i then Inl IndexError
          else
            (case np_row2 (m_array self) i of
               Inl e \<Rightarrow> Inl e
             | Inr row \<Rightarrow>
                 (case m_epoch self of
                    None \<Rightarrow> Inl AttributeError
                  | Some es \<Rightarrow>
                      if length es \<le> i then Inl IndexError
                      else
                        (case TimeFreqSpectrum_fs self of
                           Inl e \<Rightarrow> Inl e
                         | Inr fs \<Rightarrow>
                             (case m_info self of
                                None \<Rightarrow> Inl AttributeError
                              | Some info \<Rightarrow>
                                  (case TimeSeries_init row (es ! i) fs info of
                                     Inl e \<Rightarrow> Inl e
                                   | Inr t \<Rightarrow> Inr (ys ! i, t)))))))"

fun yield_all :: "(nat \<Rightarrow> error + 'b) \<Rightarrow> nat list \<Rightarrow> 'b list \<times> error option" where
  \<comment> \<open>a generator: what it yields, and the exception that ends it, if one does\<close>
  "yield_all f [] = ([], None)"
| "yield_all f (i # js) =
     (case f i of
        Inl e \<Rightarrow> ([], Some e)
      | Inr x \<Rightarrow> (case yield_all f js of (xs, r) \<Rightarrow> (x # xs, r)))"

definition TimeFreqSpectrum_iter ::
  "'a TimeFreqSpectrum \<Rightarrow> (real \<times> 'a TimeSeries) list \<times> error option" where
  "TimeFreqSpectrum_iter self =
     (case MultiSeries_ysize self of
        Inl e \<Rightarrow> ([], Some e)
      | Inr n \<Rightarrow> yield_all (TimeFreqSpectrum_item self) [0..<n])"

text \<open>
  The row of an append: a \<^verbatim>\<open>TimeSeries\<close>, a numpy array, or an object that is
  neither and has no attribute \<^verbatim>\<open>value\<close> or \<^verbatim>\<open>epoch\<close> (a list, a plain
  \<^verbatim>\<open>Series\<close>). \<open>append_args\<close> is the \<^verbatim>\<open>if\<close>/\<^verbatim>\<open>elif\<close>/\<^verbatim>\<open>else\<close> at the
  head of \<^verbatim>\<open>append\<close>: it gives \<^verbatim>\<open>value\<close>, \<^verbatim>\<open>epoch\<close>, \<^verbatim>\<open>deltax\<close> and
  \<^verbatim>\<open>size\<close>.
\<close>

datatype 'a ts_arg = TSObj "'a TimeSeries" | NdArr "'a ndarray" | OtherObj

fun append_args ::
  "'a TimeFreqSpectrum \<Rightarrow> 'a ts_arg \<Rightarrow> real option \<Rightarrow> real option
     \<Rightarrow> error + ('a ndarray \<times> real \<times> real option \<times> nat)" where
  "append_args self (TSObj t) epoch fs =
     Inr (s_value t, s_epoch t, Some (s_deltax t), Series_size t)"
| "append_args self (NdArr v) None fs = Inl TypeError"
| "append_args self (NdArr v) (Some ep) fs =
     Inr (v, ep, (case fs of None \<Rightarrow> m_deltax self | Some f \<Rightarrow> Some f), np_size v)"
| "append_args self OtherObj None fs = Inl TypeError"
| "append_args self OtherObj (Some ep) fs = Inl AttributeError"

definition TimeFreqSpectrum_insert_at ::
  "'a TimeFreqSpectrum \<Rightarrow> 'a ndarray \<Rightarrow> real \<Rightarrow> real list \<Rightarrow> real \<Rightarrow> nat
     \<Rightarrow> 'a TimeFreqSpectrum \<times> error option" where
  \<comment> \<open>the three \<^verbatim>\<open>np.insert\<close> assignments, in the order of the source\<close>
  "TimeFreqSpectrum_insert_at self v epoch ys freq idx =
     (case np_insert_axis0 (m_array self) idx v of
        Inl e \<Rightarrow> (self, Some e)
      | Inr arr \<Rightarrow>
          (case m_epoch self of
             None \<Rightarrow> (self\<lparr>m_array := arr\<rparr>, Some AttributeError)
           | Some es \<Rightarrow>
               (case np_insert1 es idx epoch of
                  Inl e \<Rightarrow> (self\<lparr>m_array := arr\<rparr>, Some e)
                | Inr es' \<Rightarrow>
                    (case np_insert1 ys idx freq of
                       Inl e \<Rightarrow> (self\<lparr>m_array := arr, m_epoch := Some es'\<rparr>, Some e)
                     | Inr ys' \<Rightarrow>
                         (self\<lparr>m_array := arr, m_epoch := Some es', m_y := Some ys'\<rparr>, None)))))"

definition TimeFreqSpectrum_update_at ::
  "'a TimeFreqSpectrum \<Rightarrow> 'a ndarray \<Rightarrow> real \<Rightarrow> nat \<Rightarrow> 'a TimeFreqSpectrum \<times> error option" where
  \<comment> \<open>\<^verbatim>\<open>self._array[idx_insert, :] = value\<close>, then \<^verbatim>\<open>self._epoch[idx_insert] = epoch\<close>\<close>
  "TimeFreqSpectrum_update_at self v epoch idx =
     (case np_set_row (m_array self) idx v of
        Inl e \<Rightarrow> (self, Some e)
      | Inr arr \<Rightarrow>
          (case m_epoch self of
             None \<Rightarrow> (self\<lparr>m_array := arr\<rparr>, Some AttributeError)
           | Some es \<Rightarrow>
               if length es \<le> idx then (self\<lparr>m_array := arr\<rparr>, Some IndexError)
               else (self\<lparr>m_array := arr, m_epoch := Some (es[idx := epoch])\<rparr>, None)))"

definition TimeFreqSpectrum_place ::
  "'a TimeFreqSpectrum \<Rightarrow> 'a ndarray \<Rightarrow> real \<Rightarrow> real
     \<Rightarrow> 'a TimeFreqSpectrum \<times> error option" where
  \<comment> \<open>\<^verbatim>\<open>if freq > self._y[-1]: ... else: ...\<close>\<close>
  "TimeFreqSpectrum_place self v epoch freq =
     (case m_y self of
        None \<Rightarrow> (self, Some TypeError)
      | Some ys \<Rightarrow>
          if ys = [] then (self, Some IndexError)
          else if last ys < freq then
            (case MultiSeries_ysize self of
               Inl e \<Rightarrow> (self, Some e)
             | Inr idx \<Rightarrow> TimeFreqSpectrum_insert_at self v epoch ys freq idx)
          else
            (case where_first ys freq of
               None \<Rightarrow> (self, Some IndexError)
             | Some idx \<Rightarrow>
                 if ys ! idx = freq then TimeFreqSpectrum_update_at self v epoch idx
                 else TimeFreqSpectrum_insert_at self v epoch ys freq idx))"

definition is_ndarray :: "'a ts_arg \<Rightarrow> bool" where
  "is_ndarray timeseries = (case timeseries of NdArr _ \<Rightarrow> True | _ \<Rightarrow> False)"

definition TimeFreqSpectrum_append ::
  "'a TimeFreqSpectrum \<Rightarrow> 'a ts_arg \<Rightarrow> real \<Rightarrow> real option \<Rightarrow> real option
     \<Rightarrow> 'a TimeFreqSpectrum \<times> error option" where
  \<comment> \<open>the state after the call, and the exception if the call raised one. The message of
      the spacing error reads \<^verbatim>\<open>timeseries.deltax\<close>, which a numpy array does not
      have. No branch assigns \<^verbatim>\<open>_isempty\<close>.\<close>
  "TimeFreqSpectrum_append self timeseries freq epoch fs =
     (case append_args self timeseries epoch fs of
        Inl e \<Rightarrow> (self, Some e)
      | Inr (v, ep, deltax, sz) \<Rightarrow>
          if \<not> m_isempty self then
            (case MultiSeries_xsize self of
               Inl e \<Rightarrow> (self, Some e)
             | Inr xsize \<Rightarrow>
                 if sz \<noteq> xsize then (self, Some IncompatibleSize)
                 else if deltax \<noteq> m_deltax self then
                   (self, Some (if is_ndarray timeseries then AttributeError else IncompatibleDeltax))
                 else TimeFreqSpectrum_place self v ep freq)
          else
            (self\<lparr>m_array := np_reshape_row v, m_epoch := Some [ep], m_y := Some [freq],
                   m_deltax := deltax\<rparr>, None))"

type_synonym 'a append_call = "'a ts_arg \<times> real \<times> real option \<times> real option"

fun appends :: "'a TimeFreqSpectrum \<Rightarrow> 'a append_call list \<Rightarrow> error + 'a TimeFreqSpectrum" where
  \<comment> \<open>a script of appends; the first exception ends it\<close>
  "appends self [] = Inr self"
| "appends self ((timeseries, freq, epoch, fs) # cs) =
     (case TimeFreqSpectrum_append self timeseries freq epoch fs of
        (self', None) \<Rightarrow> appends self' cs
      | (self', Some e) \<Rightarrow> Inl e)"

section \<open>Invariants of a spectrum\<close>

text \<open>
  \<open>lockstep\<close>: the array has two dimensions, there are as many keys and as many
  epochs as the array has rows, and the keys ascend strictly. \<open>one_row\<close>: a buffer
  that \<^verbatim>\<open>np.insert\<close> reads as a single row, that is a buffer of at most one dimension or
  one whose first dimension is 1; every \<^verbatim>\<open>TimeSeries\<close> holds such a buffer.
\<close>

definition one_row :: "'a ndarray \<Rightarrow> bool" where
  "one_row v = (length (shape v) \<le> 1 \<or> hd (shape v) = 1)"

definition lockstep :: "'a TimeFreqSpectrum \<Rightarrow> bool" where
  "lockstep s =
     (case (shape (m_array s), m_y s, m_epoch s) of
        ([r, c], Some ys, Some es) \<Rightarrow> length ys = r \<and> length es = r \<and> sorted_wrt (<) ys
      | _ \<Rightarrow> False)"

definition row_arg :: "'a ts_arg \<Rightarrow> bool" where
  "row_arg ts = (case ts of TSObj t \<Rightarrow> one_row (s_value t) | NdArr v \<Rightarrow> one_row v | OtherObj \<Rightarrow> True)"

section \<open>Auxiliary facts\<close>

lemma Series_init_Inr:
  "Series_init v d i = Inr s \<Longrightarrow> s = \<lparr>s_value = v, s_deltax = d, s_info = i\<rparr>"
  by (auto simp: Series_init_def split: list.splits if_splits)

lemma np_row_1d:
  "shape a = [n] \<Longrightarrow> j < length (flat a) \<Longrightarrow> np_row a j = [flat a ! j]"
  by (simp add: np_row_def take_Suc_conv_app_nth Cons_nth_drop_Suc[symmetric] hd_drop_conv_nth take_Suc)

lemma Series_length_init:
  "Series_init v spacing info = Inr s \<Longrightarrow>
     \<exists>n. np_len v = Inr n \<and> Series_length s = Inr (spacing * real n)"
  by (auto simp: Series_init_def Series_length_def Series_len_def np_len_def
      split: list.splits if_splits)

lemma Series_length_init_1d:
  "Series_init v spacing info = Inr s \<Longrightarrow> length (shape v) = 1 \<Longrightarrow>
     Series_length s = Inr (spacing * real (np_size v))"
  by (cases "shape v")
     (auto simp: Series_init_def Series_length_def Series_len_def np_len_def np_size_def)

lemma Series_init_1d:
  "length (shape v) = 1 \<Longrightarrow>
     Series_init v spacing info = Inr \<lparr>s_value = v, s_deltax = spacing, s_info = info\<rparr>"
  by (cases "shape v") (auto simp: Series_init_def)

lemma slice_spacing:
  "Series_getslice s (SliceIdx start stop (Some st)) = Inr r \<Longrightarrow>
     \<exists>t. r = Wrapped t \<and> s_deltax t = s_deltax s * real_of_int st"
  by (auto simp: Series_getslice_def py_float_of_int_def Let_def
      split: if_splits sum.splits dest!: Series_init_Inr)

lemma slice_indices_ok:
  "st \<noteq> 0 \<Longrightarrow> \<exists>idxs. slice_indices start stop (Some st) n = Inr idxs"
  by (simp add: slice_indices_def Let_def)

lemma slice_returns_1d:
  assumes "shape (s_value s) = [n]" "start = None \<or> (\<exists>k\<ge>0. start = Some k)" "st \<noteq> 0"
    "\<bar>st\<bar> < 2 ^ 1024 - 2 ^ 970"
  shows "\<exists>t. Series_getslice s (SliceIdx start stop (Some st)) = Inr (Wrapped t)"
proof -
  obtain idxs where i: "slice_indices start stop (Some st) n = Inr idxs"
    using slice_indices_ok[OF assms(3)] by blast
  have g: "np_getslice (s_value s) start stop (Some st) = Inr (np_take (s_value s) idxs)"
    using assms(1) i by (simp add: np_getslice_def)
  have f: "py_float_of_int st = Inr (real_of_int st)"
    using assms(4) by (simp add: py_float_of_int_def)
  have "shape (np_take (s_value s) idxs) = [length idxs]"
    using assms(1) by (simp add: np_take_def)
  then have "\<exists>t. Series_init (np_take (s_value s) idxs) (s_deltax s * real_of_int st) ''Series'' = Inr t"
    by (simp add: Series_init_def)
  then show ?thesis
    using assms(2) g f by (auto simp: Series_getslice_def)
qed

lemma slice_scenario:
  "Series_getslice \<lparr>s_value = np_array1 [1, 2, 3, 4 :: int], s_deltax = 1 / 2, s_info = ''Series''\<rparr>
      (SliceIdx None None (Some 2))
     = Inr (Wrapped \<lparr>s_value = np_array1 [1, 3], s_deltax = 1, s_info = ''Series''\<rparr>)"
  by (simp add: Series_init_def Series_getslice_def py_float_of_int_def np_array1_def
      np_getslice_def slice_indices_def np_take_def np_row_def Let_def upt_conv_Cons)

lemma CreateEmptySpectrum_eq:
  "CreateEmptySpectrum = Inr \<lparr>m_array = np_array1 [], m_deltax = None, m_y = None, m_isempty = True,
      m_epoch = None, m_info = None\<rparr>"
  by (simp add: CreateEmptySpectrum_def TimeFreqSpectrum_init_def MultiSeries_init_def np_array1_def
      TimeFreqSpectrum_of_def)

lemma append_keeps_isempty:
  "m_isempty (fst (TimeFreqSpectrum_append self ts freq epoch fs)) = m_isempty self"
  by (auto simp: TimeFreqSpectrum_append_def TimeFreqSpectrum_place_def TimeFreqSpectrum_insert_at_def
      TimeFreqSpectrum_update_at_def split: sum.splits option.splits prod.splits if_splits)

lemma append_keeps_info:
  "m_info (fst (TimeFreqSpectrum_append self ts freq epoch fs)) = m_info self"
  by (auto simp: TimeFreqSpectrum_append_def TimeFreqSpectrum_place_def TimeFreqSpectrum_insert_at_def
      TimeFreqSpectrum_update_at_def split: sum.splits option.splits prod.splits if_splits)

lemma appends_Cons_Inr:
  assumes "appends self (c # cs) = Inr s"
  obtains s' where "TimeFreqSpectrum_append self (fst c) (fst (snd c)) (fst (snd (snd c))) (snd (snd (snd c)))
      = (s', None)" "appends s' cs = Inr s"
  using assms by (cases c) (auto split: prod.splits option.splits)

lemma appends_keeps_isempty:
  "appends self cs = Inr s \<Longrightarrow> m_isempty s = m_isempty self"
proof (induction cs arbitrary: self)
  case Nil
  then show ?case by simp
next
  case (Cons c cs)
  from Cons.prems obtain s' where
    a: "TimeFreqSpectrum_append self (fst c) (fst (snd c)) (fst (snd (snd c))) (snd (snd (snd c))) = (s', None)"
    and rest: "appends s' cs = Inr s"
    by (rule appends_Cons_Inr)
  have "m_isempty s' = m_isempty self"
    using append_keeps_isempty[of self "fst c" "fst (snd c)" "fst (snd (snd c))" "snd (snd (snd c))"] a
    by simp
  with Cons.IH[OF rest] show ?case by simp
qed

lemma appends_keeps_info:
  "appends self cs = Inr s \<Longrightarrow> m_info s = m_info self"
proof (induction cs arbitrary: self)
  case Nil
  then show ?case by simp
next
  case (Cons c cs)
  from Cons.prems obtain s' where
    a: "TimeFreqSpectrum_append self (fst c) (fst (snd c)) (fst (snd (snd c))) (snd (snd (snd c))) = (s', None)"
    and rest: "appends s' cs = Inr s"
    by (rule appends_Cons_Inr)
  have "m_info s' = m_info self"
    using append_keeps_info[of self "fst c" "fst (snd c)" "fst (snd (snd c))" "snd (snd (snd c))"] a
    by simp
  with Cons.IH[OF rest] show ?case by simp
qed

lemma appends_snoc:
  "appends self (cs @ [c]) = Inr s \<Longrightarrow>
     \<exists>s'. appends self cs = Inr s' \<and> appends s' [c] = Inr s"
proof (induction cs arbitrary: self)
  case Nil
  then show ?case by simp
next
  case (Cons d cs)
  from Cons.prems obtain s1 where
    a: "TimeFreqSpectrum_append self (fst d) (fst (snd d)) (fst (snd (snd d))) (snd (snd (snd d))) = (s1, None)"
    and rest: "appends s1 (cs @ [c]) = Inr s"
    using appends_Cons_Inr[of self d "cs @ [c]" s] by auto
  from Cons.IH[OF rest] obtain s' where "appends s1 cs = Inr s'" "appends s' [c] = Inr s" by blast
  then show ?case using a by (cases d) auto
qed

lemma append_on_empty:
  assumes "m_isempty self" "appends self [(ts, freq, epoch, fs)] = Inr s"
  shows "\<exists>v ep dx sz. append_args self ts epoch fs = Inr (v, ep, dx, sz) \<and>
           s = self\<lparr>m_array := np_reshape_row v, m_epoch := Some [ep], m_y := Some [freq], m_deltax := dx\<rparr>"
  using assms
  by (auto simp: TimeFreqSpectrum_append_def split: sum.splits option.splits prod.splits if_splits)

lemma append_args_indep:
  "append_args self ts epoch fs = Inr (v, ep, dx, sz) \<Longrightarrow>
     \<exists>dx'. append_args self' ts epoch fs = Inr (v, ep, dx', sz)"
  by (cases "(self, ts, epoch, fs)" rule: append_args.cases) auto

section \<open>The ordered insert on a spectrum that is not empty\<close>

text \<open>
  On a spectrum whose flag \<^verbatim>\<open>_isempty\<close> is false (one built by the constructor from a
  first row) \<^verbatim>\<open>append\<close> does insert in order and replace on a collision: an append
  of a single row that returns keeps \<open>lockstep\<close>, and one that raises leaves the
  spectrum as it was. These are facts of the model of \<^verbatim>\<open>np.insert\<close> above, so of
  the code where the key array stores the new key as it is given: a float array, or a
  key that is a whole number. A fraction inserted into an integer key array is
  truncated and can repeat a key; the counts of rows, keys and epochs stay equal, the
  keys no longer ascend strictly. A raw buffer of shape \<open>(n, 1)\<close> is not a single
  row: \<^verbatim>\<open>np.insert\<close> adds a row for each of its entries, and one key
  (\<open>column_buffer_breaks_lockstep\<close>).
\<close>

lemma lockstepE:
  assumes "lockstep s"
  obtains r c ys es where "shape (m_array s) = [r, c]" "m_y s = Some ys" "m_epoch s = Some es"
    "length ys = r" "length es = r" "sorted_wrt (<) ys"
  using assms unfolding lockstep_def
  by (auto split: list.splits option.splits)

lemma lockstepI:
  "shape (m_array s) = [r, c] \<Longrightarrow> m_y s = Some ys \<Longrightarrow> m_epoch s = Some es \<Longrightarrow>
   length ys = r \<Longrightarrow> length es = r \<Longrightarrow> sorted_wrt (<) ys \<Longrightarrow> lockstep s"
  by (simp add: lockstep_def)

lemma where_first_Some:
  "where_first ys k = Some i \<Longrightarrow> i < length ys \<and> k \<le> ys ! i \<and> (\<forall>j<i. ys ! j < k)"
proof (induction ys arbitrary: i)
  case Nil
  then show ?case by simp
next
  case (Cons y ys)
  show ?case
  proof (cases "0 \<le> y - k")
    case True
    with Cons.prems show ?thesis by simp
  next
    case False
    with Cons.prems obtain i' where i': "where_first ys k = Some i'" "i = Suc i'"
      by auto
    from Cons.IH[OF i'(1)] False i'(2) show ?thesis
      by (auto simp: less_Suc_eq_0_disj)
  qed
qed

lemma sorted_insert_at:
  assumes "sorted_wrt (<) ys" "i \<le> length ys" "\<forall>j<i. ys ! j < k"
    "\<forall>j. i \<le> j \<and> j < length ys \<longrightarrow> k < ys ! j"
  shows "sorted_wrt (<) (take i ys @ [k] @ drop i ys)"
proof -
  have a: "\<forall>x\<in>set (take i ys). x < k"
    using assms(2,3) by (auto simp: in_set_conv_nth)
  have b: "\<forall>x\<in>set (drop i ys). k < x"
    using assms(2,4) by (auto simp: in_set_conv_nth)
  have c: "sorted_wrt (<) (take i ys @ drop i ys)" using assms(1) by simp
  then have "sorted_wrt (<) (take i ys)" "sorted_wrt (<) (drop i ys)"
    "\<forall>x\<in>set (take i ys). \<forall>y\<in>set (drop i ys). x < y"
    unfolding sorted_wrt_append by auto
  then show ?thesis
    using a b by (auto simp: sorted_wrt_append)
qed

lemma sorted_snoc:
  assumes "sorted_wrt (<) ys" "ys \<noteq> []" "last ys < (k::real)"
  shows "sorted_wrt (<) (take (length ys) ys @ [k] @ drop (length ys) ys)"
proof -
  have "\<forall>x\<in>set ys. x \<le> last ys"
  proof
    fix x assume "x \<in> set ys"
    then obtain i where i: "i < length ys" "ys ! i = x" by (auto simp: in_set_conv_nth)
    show "x \<le> last ys"
    proof (cases "i = length ys - 1")
      case True
      with i assms(2) show ?thesis by (simp add: last_conv_nth)
    next
      case False
      with i have "i < length ys - 1" by simp
      moreover have "length ys - 1 < length ys" using assms(2) by simp
      ultimately have "ys ! i < ys ! (length ys - 1)"
        using assms(1) sorted_wrt_nth_less[of "(<)" ys i "length ys - 1"] by blast
      with i assms(2) show ?thesis by (simp add: last_conv_nth)
    qed
  qed
  with assms show ?thesis by (auto simp: sorted_wrt_append)
qed

lemma np_broadcast_rows_one:
  "one_row v \<Longrightarrow> np_broadcast_rows c v = Inr rows \<Longrightarrow> length rows = 1"
  by (cases "shape v"; cases "tl (shape v)")
     (auto simp: one_row_def np_broadcast_rows_def Let_def numeral_2_eq_2 split: list.splits if_splits)

lemma insert_at_lockstep:
  assumes "lockstep s" "m_y s = Some ys" "one_row v" "idx \<le> length ys"
    "sorted_wrt (<) (take idx ys @ [freq] @ drop idx ys)"
    "TimeFreqSpectrum_insert_at s v ep ys freq idx = (s', r)"
  shows "(case r of None \<Rightarrow> lockstep s' | Some e \<Rightarrow> s' = s)"
proof -
  from assms(1) obtain rr c ys' es where
    sh: "shape (m_array s) = [rr, c]" and y: "m_y s = Some ys'" and e: "m_epoch s = Some es"
    and ly: "length ys' = rr" and le: "length es = rr"
    by (rule lockstepE)
  from y assms(2) have [simp]: "ys' = ys" by simp
  show ?thesis
  proof (cases "np_broadcast_rows c v")
    case (Inl err)
    with assms(6) sh ly assms(4) show ?thesis
      by (auto simp: TimeFreqSpectrum_insert_at_def np_insert_axis0_def)
  next
    case (Inr rows)
    with assms(3) have one: "length rows = 1" by (rule np_broadcast_rows_one)
    from assms(6) Inr sh ly le e assms(4) one have
      s': "s' = s\<lparr>m_array := \<lparr>shape = [rr + 1, c],
                 flat = take (idx * c) (flat (m_array s)) @ concat rows @ drop (idx * c) (flat (m_array s))\<rparr>,
               m_epoch := Some (take idx es @ [ep] @ drop idx es),
               m_y := Some (take idx ys @ [freq] @ drop idx ys)\<rparr>" and r: "r = None"
      by (auto simp: TimeFreqSpectrum_insert_at_def np_insert_axis0_def np_insert1_def)
    have "lockstep s'"
      using s' ly le assms(4,5) by (intro lockstepI[where r = "rr + 1" and c = c]) auto
    with r show ?thesis by simp
  qed
qed

lemma update_at_lockstep:
  assumes "lockstep s" "m_y s = Some ys" "idx < length ys"
    "TimeFreqSpectrum_update_at s v ep idx = (s', r)"
  shows "(case r of None \<Rightarrow> lockstep s' | Some e \<Rightarrow> s' = s)"
proof -
  from assms(1) obtain rr c ys' es where
    sh: "shape (m_array s) = [rr, c]" and y: "m_y s = Some ys'" and e: "m_epoch s = Some es"
    and ly: "length ys' = rr" and le: "length es = rr" and so: "sorted_wrt (<) ys'"
    by (rule lockstepE)
  from y assms(2) have [simp]: "ys' = ys" by simp
  show ?thesis
  proof (cases "np_set_row (m_array s) idx v")
    case (Inl err)
    with assms(4) show ?thesis by (auto simp: TimeFreqSpectrum_update_at_def)
  next
    case (Inr arr)
    then have "shape arr = [rr, c]"
      using sh by (auto simp: np_set_row_def split: if_splits sum.splits)
    with assms(3,4) Inr e le ly y so show ?thesis
      by (auto simp: TimeFreqSpectrum_update_at_def intro!: lockstepI[where r = rr and c = c])
  qed
qed

lemma place_lockstep:
  assumes "lockstep s" "one_row v" "TimeFreqSpectrum_place s v ep freq = (s', r)"
  shows "(case r of None \<Rightarrow> lockstep s' | Some e \<Rightarrow> s' = s)"
proof -
  from assms(1) obtain rr c ys es where
    sh: "shape (m_array s) = [rr, c]" and y: "m_y s = Some ys" and e: "m_epoch s = Some es"
    and ly: "length ys = rr" and le: "length es = rr" and so: "sorted_wrt (<) ys"
    by (rule lockstepE)
  show ?thesis
  proof (cases "ys = []")
    case True
    with assms(3) y show ?thesis by (auto simp: TimeFreqSpectrum_place_def)
  next
    case ne: False
    show ?thesis
    proof (cases "last ys < freq")
      case True
      with assms(3) y ne sh ly have
        ins: "TimeFreqSpectrum_insert_at s v ep ys freq (length ys) = (s', r)"
        by (simp add: TimeFreqSpectrum_place_def MultiSeries_ysize_def)
      have srt: "sorted_wrt (<) (take (length ys) ys @ [freq] @ drop (length ys) ys)"
        using so ne True by (rule sorted_snoc)
      show ?thesis
        by (rule insert_at_lockstep[OF assms(1) y assms(2) _ srt ins]) simp
    next
      case False
      show ?thesis
      proof (cases "where_first ys freq")
        case None
        with assms(3) y ne False show ?thesis by (auto simp: TimeFreqSpectrum_place_def)
      next
        case (Some idx)
        from where_first_Some[OF Some] have
          i: "idx < length ys" and ge: "freq \<le> ys ! idx" and lt: "\<forall>j<idx. ys ! j < freq"
          by auto
        show ?thesis
        proof (cases "ys ! idx = freq")
          case True
          with assms(3) y ne False Some have "TimeFreqSpectrum_update_at s v ep idx = (s', r)"
            by (simp add: TimeFreqSpectrum_place_def)
          then show ?thesis using update_at_lockstep[OF assms(1) y i] by simp
        next
          case neq: False
          with assms(3) y ne False Some have
            ins: "TimeFreqSpectrum_insert_at s v ep ys freq idx = (s', r)"
            by (simp add: TimeFreqSpectrum_place_def)
          have "\<forall>j. idx \<le> j \<and> j < length ys \<longrightarrow> freq < ys ! j"
          proof (intro allI impI)
            fix j assume j: "idx \<le> j \<and> j < length ys"
            have "ys ! idx \<le> ys ! j"
            proof (cases "idx = j")
              case True then show ?thesis by simp
            next
              case False
              with j have "idx < j" by simp
              with so j show ?thesis using sorted_wrt_nth_less[of "(<)" ys idx j] by simp
            qed
            with ge neq show "freq < ys ! j" by simp
          qed
          with so i lt have srt: "sorted_wrt (<) (take idx ys @ [freq] @ drop idx ys)"
            by (intro sorted_insert_at) auto
          show ?thesis
            by (rule insert_at_lockstep[OF assms(1) y assms(2) _ srt ins]) (use i in simp)
        qed
      qed
    qed
  qed
qed

lemma append_args_value:
  "append_args s ts epoch fs = Inr (v, ep, dx, sz) \<Longrightarrow>
     (\<exists>t. ts = TSObj t \<and> v = s_value t) \<or> ts = NdArr v"
  by (cases "(s, ts, epoch, fs)" rule: append_args.cases) auto

lemma append_lockstep:
  assumes "lockstep s \<or> m_isempty s" "row_arg ts"
    "TimeFreqSpectrum_append s ts freq epoch fs = (s', r)"
  shows "(case r of None \<Rightarrow> lockstep s' | Some e \<Rightarrow> s' = s)"
proof (cases "append_args s ts epoch fs")
  case (Inl e)
  with assms(3) show ?thesis by (auto simp: TimeFreqSpectrum_append_def)
next
  case (Inr q)
  obtain v ep dx sz where q: "q = (v, ep, dx, sz)" by (cases q) auto
  from append_args_value[OF Inr[unfolded q]] assms(2) have one: "one_row v"
    by (auto simp: row_arg_def)
  show ?thesis
  proof (cases "m_isempty s")
    case True
    with assms(3) Inr q have "r = None"
      "s' = s\<lparr>m_array := np_reshape_row v, m_epoch := Some [ep], m_y := Some [freq], m_deltax := dx\<rparr>"
      by (auto simp: TimeFreqSpectrum_append_def)
    then show ?thesis
      by (auto simp: np_reshape_row_def intro!: lockstepI[where r = 1 and c = "np_size v"])
  next
    case False
    with assms(1) have ls: "lockstep s" by simp
    from assms(3) Inr q False have
      "(s' = s \<and> r \<noteq> None) \<or> TimeFreqSpectrum_place s v ep freq = (s', r)"
      by (auto simp: TimeFreqSpectrum_append_def split: sum.splits if_splits)
    then show ?thesis
      using place_lockstep[OF ls one] by auto
  qed
qed

lemma TimeSeries_init_one_row:
  "TimeSeries_init v epoch fs info = Inr t \<Longrightarrow> one_row (s_value t)"
  by (auto simp: TimeSeries_init_def Series_init_def one_row_def split: if_splits list.splits)

lemma sorted_wrt_single:
  "length ys = Suc 0 \<Longrightarrow> sorted_wrt P ys"
  by (cases ys) auto

lemma TimeFreqSpectrum_init_lockstep:
  "TimeFreqSpectrum_init array epoch fs freqs info = Inr s \<Longrightarrow> lockstep s \<or> m_isempty s"
  by (auto simp: TimeFreqSpectrum_init_def MultiSeries_init_def TimeFreqSpectrum_of_def
      MultiSeries_ysize_def np_reshape_row_def lockstep_def sorted_wrt_single
      split: if_splits list.splits sum.splits)

lemma column_buffer_breaks_lockstep:
  "TimeFreqSpectrum_append
      \<lparr>m_array = \<lparr>shape = [1, 2], flat = [1, 2 :: int]\<rparr>, m_deltax = Some (1 / 10), m_y = Some [5],
            m_isempty = False, m_epoch = Some [0], m_info = None\<rparr>
      (NdArr \<lparr>shape = [2, 1], flat = [3, 4]\<rparr>) 7 (Some 1) None
     = (\<lparr>m_array = \<lparr>shape = [3, 2], flat = [1, 2, 3, 3, 4, 4]\<rparr>, m_deltax = Some (1 / 10),
         m_y = Some [5, 7], m_isempty = False, m_epoch = Some [0, 1], m_info = None\<rparr>, None)"
  by code_simp


lemma appends_lockstep:
  assumes "lockstep s \<or> m_isempty s" "list_all (\<lambda>c. row_arg (fst c)) cs" "appends s cs = Inr s'"
  shows "cs = [] \<and> s' = s \<or> lockstep s'"
  using assms
proof (induction cs arbitrary: s)
  case Nil
  then show ?case by simp
next
  case (Cons c cs)
  from Cons.prems(3) obtain s1 where
    a: "TimeFreqSpectrum_append s (fst c) (fst (snd c)) (fst (snd (snd c))) (snd (snd (snd c))) = (s1, None)"
    and rest: "appends s1 cs = Inr s'"
    by (rule appends_Cons_Inr)
  from Cons.prems(2) have ra: "row_arg (fst c)" and ras: "list_all (\<lambda>c. row_arg (fst c)) cs"
    by simp_all
  from append_lockstep[OF Cons.prems(1) ra a] have l1: "lockstep s1" by simp
  then have "lockstep s1 \<or> m_isempty s1" by simp
  from Cons.IH[OF this ras rest] l1 show ?case by auto
qed

lemma MultiSeries_append_nonempty_atomic:
  assumes "\<not> m_isempty self" "shape (m_array self) = [r, c]" "m_y self = Some ys" "length ys = r"
    "MultiSeries_append self arg y = (s', Some e)"
  shows "s' = self"
proof (cases "case arg of SeriesObj s \<Rightarrow> Inr s | RawBuf v \<Rightarrow> Series_init v (m_deltax self) ''Series''")
  case (Inl err)
  with assms(5) show ?thesis by (auto simp: MultiSeries_append_def)
next
  case (Inr series)
  with assms(1,5) have ins: "MultiSeries_insert self series y = (s', Some e)"
    by (simp add: MultiSeries_append_def)
  have at: "MultiSeries_insert_at self series ys k idx = (s', Some e) \<Longrightarrow> idx \<le> length ys \<Longrightarrow> s' = self"
    for k idx
    using assms(2,4)
    by (auto simp: MultiSeries_insert_at_def np_insert1_def split: sum.splits if_splits)
  have pl: "MultiSeries_place self series ys y = (s', Some e) \<Longrightarrow> s' = self"
    using assms(2,4) at
    by (auto simp: MultiSeries_place_def MultiSeries_ysize_def
        split: if_splits sum.splits option.splits dest!: where_first_Some)
  from ins assms(3) show ?thesis
    using pl by (auto simp: MultiSeries_insert_def split: sum.splits if_splits)
qed

lemma constructed_spectrum_scenario:
  "TimeFreqSpectrum_init (np_array1 [1, 2, 3, 4, 5 :: int]) (ArgInt 0) 10 (ArgInt 20) ''TimeFreqSpectrum''
     = Inr \<lparr>m_array = \<lparr>shape = [1, 5], flat = [1, 2, 3, 4, 5]\<rparr>, m_deltax = Some (1 / 10),
            m_y = Some [20], m_isempty = False, m_epoch = Some [0], m_info = None\<rparr> \<and>
   appends \<lparr>m_array = \<lparr>shape = [1, 5], flat = [1, 2, 3, 4, 5 :: int]\<rparr>, m_deltax = Some (1 / 10),
            m_y = Some [20], m_isempty = False, m_epoch = Some [0], m_info = None\<rparr>
     [(TSObj \<lparr>s_value = np_array1 [6, 7, 8, 9, 10], s_deltax = 1 / 10, s_info = ''TimeSeries'',
              s_epoch = 1\<rparr>, 10, None, None)]
     = Inr \<lparr>m_array = \<lparr>shape = [2, 5], flat = [6, 7, 8, 9, 10, 1, 2, 3, 4, 5]\<rparr>,
            m_deltax = Some (1 / 10), m_y = Some [10, 20], m_isempty = False,
            m_epoch = Some [1, 0], m_info = None\<rparr> \<and>
   appends \<lparr>m_array = \<lparr>shape = [1, 5], flat = [1, 2, 3, 4, 5 :: int]\<rparr>, m_deltax = Some (1 / 10),
            m_y = Some [20], m_isempty = False, m_epoch = Some [0], m_info = None\<rparr>
     [(TSObj \<lparr>s_value = np_array1 [6, 7, 8, 9, 10], s_deltax = 1 / 10, s_info = ''TimeSeries'',
              s_epoch = 1\<rparr>, 10, None, None),
      (TSObj \<lparr>s_value = np_array1 [11, 12, 13, 14, 15], s_deltax = 1 / 10, s_info = ''TimeSeries'',
              s_epoch = 2\<rparr>, 20, None, None)]
     = Inr \<lparr>m_array = \<lparr>shape = [2, 5], flat = [6, 7, 8, 9, 10, 11, 12, 13, 14, 15]\<rparr>,
            m_deltax = Some (1 / 10), m_y = Some [10, 20], m_isempty = False,
            m_epoch = Some [1, 2], m_info = None\<rparr>"
  by code_simp

section \<open>Attributes that are never there\<close>

text \<open>
  No spectrum has the attribute \<^verbatim>\<open>_info\<close>: the constructor does not assign it and
  \<^verbatim>\<open>append\<close> keeps it as it is. Without it the first pair of an iteration cannot be
  built, so an iteration yields nothing, and raises as soon as there is a row.
\<close>

lemma TimeFreqSpectrum_init_info:
  "TimeFreqSpectrum_init array epoch fs freqs info = Inr s \<Longrightarrow> m_info s = None"
  by (auto simp: TimeFreqSpectrum_init_def TimeFreqSpectrum_of_def split: if_splits sum.splits)

lemma item_without_info:
  "m_info self = None \<Longrightarrow> \<exists>e. TimeFreqSpectrum_item self i = Inl e"
  by (auto simp: TimeFreqSpectrum_item_def split: option.splits sum.splits)

lemma yield_all_failing:
  "(\<And>i. \<exists>e. f i = Inl e) \<Longrightarrow> fst (yield_all f js) = [] \<and> (js \<noteq> [] \<longrightarrow> snd (yield_all f js) \<noteq> None)"
proof (cases js)
  case Nil
  then show ?thesis by simp
next
  case (Cons j ks)
  assume "\<And>i. \<exists>e. f i = Inl e"
  then obtain e where "f j = Inl e" by blast
  with Cons show ?thesis by simp
qed

lemma iter_without_info:
  assumes "m_info self = None"
  shows "fst (TimeFreqSpectrum_iter self) = []"
    and "MultiSeries_ysize self = Inr (Suc n) \<Longrightarrow> snd (TimeFreqSpectrum_iter self) \<noteq> None"
proof -
  have f: "\<And>i. \<exists>e. TimeFreqSpectrum_item self i = Inl e"
    using assms by (rule item_without_info)
  show "fst (TimeFreqSpectrum_iter self) = []"
    using yield_all_failing[OF f] by (auto simp: TimeFreqSpectrum_iter_def split: sum.splits)
  show "MultiSeries_ysize self = Inr (Suc n) \<Longrightarrow> snd (TimeFreqSpectrum_iter self) \<noteq> None"
    using yield_all_failing[OF f, where js = "[0..<Suc n]"] by (simp add: TimeFreqSpectrum_iter_def)
qed

text \<open>
  \<^verbatim>\<open>TimeSeries.resample\<close> returns the receiver for the rate that its property
  \<^verbatim>\<open>fs\<close> reports and raises for every other one. (In floating point the reported
  rate need not be the rate the sequence was built with.)
\<close>

lemma TimeSeries_resample_same_rate:
  "TimeSeries_fs self = Inr fs \<Longrightarrow> TimeSeries_resample rs self (real_of_int fs) = Inr Self"
  by (simp add: TimeSeries_resample_def)

lemma TimeSeries_resample_other_rate:
  "TimeSeries_fs self = Inr fs \<Longrightarrow> fs_new \<noteq> real_of_int fs \<Longrightarrow>
     TimeSeries_resample rs self fs_new = Inl AttributeError"
  by (simp add: TimeSeries_resample_def TimeSeries_info_def)

section \<open>The claims\<close>

subsection \<open>TimeFreqSpectrum: appends to the spectrum of the factory\<close>

text \<open>
  C1. The scenario of the specification, run on the code: the spectrum comes from
  \<^verbatim>\<open>CreateEmptySpectrum()\<close>; a row of 5 samples at rate 10 with epoch 0 is appended at
  frequency 20, then one with epoch 1 at frequency 10. After the first append the
  spectrum holds one row and the keys \<open>[20]\<close>, as the claim says. After the second it
  holds one row again, the keys \<open>[10]\<close> and the epochs \<open>[1]\<close>, where the claim says
  two rows, keys \<open>[10, 20]\<close> and epochs \<open>[1, 0]\<close>: \<^verbatim>\<open>_isempty\<close> is still true, so the
  second append runs the branch of the first. The third append, with epoch 2 at
  frequency 20, leaves one row, the keys \<open>[20]\<close> and the epochs \<open>[2]\<close>.
\<close>

theorem factory_second_append_overwrites:
  "CreateEmptySpectrum
     = Inr \<lparr>m_array = np_array1 ([] :: int list), m_deltax = None, m_y = None, m_isempty = True,
            m_epoch = None, m_info = None\<rparr> \<and>
   TimeSeries_init (np_array1 [1, 2, 3, 4, 5 :: int]) 0 10 ''TimeSeries''
     = Inr \<lparr>s_value = np_array1 [1, 2, 3, 4, 5], s_deltax = 1 / 10, s_info = ''TimeSeries'',
            s_epoch = 0\<rparr> \<and>
   appends \<lparr>m_array = np_array1 ([] :: int list), m_deltax = None, m_y = None, m_isempty = True,
            m_epoch = None, m_info = None\<rparr>
     [(TSObj \<lparr>s_value = np_array1 [1, 2, 3, 4, 5], s_deltax = 1 / 10, s_info = ''TimeSeries'',
              s_epoch = 0\<rparr>, 20, None, None)]
     = Inr \<lparr>m_array = \<lparr>shape = [1, 5], flat = [1, 2, 3, 4, 5]\<rparr>, m_deltax = Some (1 / 10),
            m_y = Some [20], m_isempty = True, m_epoch = Some [0], m_info = None\<rparr> \<and>
   appends \<lparr>m_array = np_array1 ([] :: int list), m_deltax = None, m_y = None, m_isempty = True,
            m_epoch = None, m_info = None\<rparr>
     [(TSObj \<lparr>s_value = np_array1 [1, 2, 3, 4, 5], s_deltax = 1 / 10, s_info = ''TimeSeries'',
              s_epoch = 0\<rparr>, 20, None, None),
      (TSObj \<lparr>s_value = np_array1 [6, 7, 8, 9, 10], s_deltax = 1 / 10, s_info = ''TimeSeries'',
              s_epoch = 1\<rparr>, 10, None, None)]
     = Inr \<lparr>m_array = \<lparr>shape = [1, 5], flat = [6, 7, 8, 9, 10]\<rparr>, m_deltax = Some (1 / 10),
            m_y = Some [10], m_isempty = True, m_epoch = Some [1], m_info = None\<rparr> \<and>
   appends \<lparr>m_array = np_array1 ([] :: int list), m_deltax = None, m_y = None, m_isempty = True,
            m_epoch = None, m_info = None\<rparr>
     [(TSObj \<lparr>s_value = np_array1 [1, 2, 3, 4, 5], s_deltax = 1 / 10, s_info = ''TimeSeries'',
              s_epoch = 0\<rparr>, 20, None, None),
      (TSObj \<lparr>s_value = np_array1 [6, 7, 8, 9, 10], s_deltax = 1 / 10, s_info = ''TimeSeries'',
              s_epoch = 1\<rparr>, 10, None, None),
      (TSObj \<lparr>s_value = np_array1 [11, 12, 13, 14, 15], s_deltax = 1 / 10, s_info = ''TimeSeries'',
              s_epoch = 2\<rparr>, 20, None, None)]
     = Inr \<lparr>m_array = \<lparr>shape = [1, 5], flat = [11, 12, 13, 14, 15]\<rparr>, m_deltax = Some (1 / 10),
            m_y = Some [20], m_isempty = True, m_epoch = Some [2], m_info = None\<rparr>"
  by (simp add: CreateEmptySpectrum_eq TimeFreqSpectrum_append_def Series_size_def np_size_def
      np_array1_def np_reshape_row_def TimeSeries_init_def Series_init_def)

text \<open>
  C10. \<^verbatim>\<open>append\<close> never changes \<^verbatim>\<open>_isempty\<close>. So on the spectrum of the factory
  every append that returns has run the branch for an empty container: after a
  sequence of appends that all return, the spectrum holds one row, the key of the last
  append and one epoch, and it is, up to the shared spacing, the spectrum that the last
  append alone leaves behind on a fresh one. (The spacing of a raw buffer appended
  without \<^verbatim>\<open>fs\<close> is the spacing the container had before.)
\<close>

theorem factory_spectrum_never_grows:
  "m_isempty (fst (TimeFreqSpectrum_append self ts0 freq0 epoch0 fs0)) = m_isempty self \<and>
   (CreateEmptySpectrum = Inr e \<and> appends e (cs @ [(ts, freq, epoch, fs)]) = Inr s \<longrightarrow>
      m_isempty s \<and>
      (\<exists>c. shape (m_array s) = [1, c]) \<and> m_y s = Some [freq] \<and> (\<exists>ep. m_epoch s = Some [ep]) \<and>
      (\<exists>d. appends e [(ts, freq, epoch, fs)] = Inr (s\<lparr>m_deltax := d\<rparr>)))"
proof (intro conjI impI)
  show "m_isempty (fst (TimeFreqSpectrum_append self ts0 freq0 epoch0 fs0)) = m_isempty self"
    by (rule append_keeps_isempty)
next
  assume h: "CreateEmptySpectrum = Inr e \<and> appends e (cs @ [(ts, freq, epoch, fs)]) = Inr s"
  then have e: "e = \<lparr>m_array = np_array1 [], m_deltax = None, m_y = None, m_isempty = True,
      m_epoch = None, m_info = None\<rparr>"
    by (simp add: CreateEmptySpectrum_eq)
  from h obtain s' where p: "appends e cs = Inr s'" and l: "appends s' [(ts, freq, epoch, fs)] = Inr s"
    using appends_snoc by blast
  have em: "m_isempty s'" using appends_keeps_isempty[OF p] e by simp
  have inf: "m_info s' = None" using appends_keeps_info[OF p] e by simp
  from append_on_empty[OF em l] obtain v ep dx sz where
    args: "append_args s' ts epoch fs = Inr (v, ep, dx, sz)" and
    s: "s = s'\<lparr>m_array := np_reshape_row v, m_epoch := Some [ep], m_y := Some [freq], m_deltax := dx\<rparr>"
    by blast
  show "m_isempty s" using s em by simp
  show "\<exists>c. shape (m_array s) = [1, c]" using s by (simp add: np_reshape_row_def)
  show "m_y s = Some [freq]" using s by simp
  show "\<exists>ep. m_epoch s = Some [ep]" using s by simp
  from append_args_indep[OF args, of e] obtain dx' where
    args': "append_args e ts epoch fs = Inr (v, ep, dx', sz)" by blast
  have "appends e [(ts, freq, epoch, fs)] = Inr (s\<lparr>m_deltax := dx'\<rparr>)"
    using args' e s em inf by (simp add: TimeFreqSpectrum_append_def)
  then show "\<exists>d. appends e [(ts, freq, epoch, fs)] = Inr (s\<lparr>m_deltax := d\<rparr>)" by blast
qed

theorem factory_spectrum_never_grows_witness:
  "CreateEmptySpectrum
     = Inr \<lparr>m_array = np_array1 ([] :: int list), m_deltax = None, m_y = None, m_isempty = True,
            m_epoch = None, m_info = None\<rparr> \<and>
   appends \<lparr>m_array = np_array1 ([] :: int list), m_deltax = None, m_y = None, m_isempty = True,
            m_epoch = None, m_info = None\<rparr>
     ([(TSObj \<lparr>s_value = np_array1 [1, 2, 3], s_deltax = 1 / 10, s_info = ''TimeSeries'',
               s_epoch = 0\<rparr>, 20, None, None)] @
      [(NdArr (np_array1 [4, 5, 6]), 30, Some 1, None)])
     = Inr \<lparr>m_array = \<lparr>shape = [1, 3], flat = [4, 5, 6]\<rparr>, m_deltax = Some (1 / 10),
            m_y = Some [30], m_isempty = True, m_epoch = Some [1], m_info = None\<rparr> \<and>
   m_isempty \<lparr>m_array = \<lparr>shape = [1, 3], flat = [4, 5, 6 :: int]\<rparr>, m_deltax = Some (1 / 10),
            m_y = Some [30], m_isempty = True, m_epoch = Some [1], m_info = None\<rparr> \<and>
   (\<exists>d. appends \<lparr>m_array = np_array1 ([] :: int list), m_deltax = None, m_y = None,
            m_isempty = True, m_epoch = None, m_info = None\<rparr>
          [(NdArr (np_array1 [4, 5, 6]), 30, Some 1, None)]
        = Inr (\<lparr>m_array = \<lparr>shape = [1, 3], flat = [4, 5, 6]\<rparr>, m_deltax = Some (1 / 10),
            m_y = Some [30], m_isempty = True, m_epoch = Some [1], m_info = None\<rparr>\<lparr>m_deltax := d\<rparr>))"
proof -
  let ?e = "\<lparr>m_array = np_array1 ([] :: int list), m_deltax = None, m_y = None, m_isempty = True,
            m_epoch = None, m_info = None\<rparr>"
  let ?s = "\<lparr>m_array = \<lparr>shape = [1, 3], flat = [4, 5, 6 :: int]\<rparr>, m_deltax = Some (1 / 10),
            m_y = Some [30], m_isempty = True, m_epoch = Some [1], m_info = None\<rparr>"
  let ?cs = "[(TSObj \<lparr>s_value = np_array1 [1, 2, 3 :: int], s_deltax = 1 / 10, s_info = ''TimeSeries'',
               s_epoch = 0\<rparr>, 20, None, None)]"
  have a: "CreateEmptySpectrum = Inr ?e"
    by (rule CreateEmptySpectrum_eq)
  have b: "appends ?e (?cs @ [(NdArr (np_array1 [4, 5, 6]), 30, Some 1, None)]) = Inr ?s"
    by (simp add: TimeFreqSpectrum_append_def Series_size_def np_size_def np_array1_def
        np_reshape_row_def)
  from factory_spectrum_never_grows[of _ _ _ _ _ ?e ?cs "NdArr (np_array1 [4, 5, 6])" 30 "Some 1" None ?s]
    a b
  show ?thesis by blast
qed


subsection \<open>MultiSeries: the first append\<close>

text \<open>
  C2. An append that raises after it has changed the container. The container is empty
  (\<^verbatim>\<open>MultiSeries([], 1, None)\<close>); a \<^verbatim>\<open>Series\<close> of three samples with spacing 1/2 is
  appended at the key 7. The call raises \<^verbatim>\<open>TypeError\<close>, and the container now has the
  row and the spacing of the argument: the branch for an empty container assigns
  \<^verbatim>\<open>_deltax\<close> and \<^verbatim>\<open>_array\<close> before it tests the key.
\<close>

theorem MultiSeries_append_mutates_then_raises:
  "MultiSeries_init (np_array1 ([] :: int list)) 1 ArgNone
     = Inr \<lparr>m_array = np_array1 [], m_deltax = None, m_y = None, m_isempty = True\<rparr> \<and>
   MultiSeries_append
      \<lparr>m_array = np_array1 ([] :: int list), m_deltax = None, m_y = None, m_isempty = True\<rparr>
      (SeriesObj \<lparr>s_value = np_array1 [1, 2, 3], s_deltax = Some (1 / 2), s_info = ''Series''\<rparr>)
      (KeyInt 7)
     = (\<lparr>m_array = \<lparr>shape = [1, 3], flat = [1, 2, 3]\<rparr>, m_deltax = Some (1 / 2), m_y = None,
         m_isempty = True\<rparr>, Some TypeError)"
  by (simp add: MultiSeries_init_def MultiSeries_append_def np_array1_def np_reshape_row_def
      np_size_def isinstance_int_def isinstance_float_def Let_def)

theorem MultiSeries_append_mutates_then_raises_witness:
  "snd (MultiSeries_append
      \<lparr>m_array = np_array1 ([] :: int list), m_deltax = None, m_y = None, m_isempty = True\<rparr>
      (SeriesObj \<lparr>s_value = np_array1 [1, 2, 3], s_deltax = Some (1 / 2), s_info = ''Series''\<rparr>)
      (KeyInt 7)) = Some TypeError \<and>
   m_deltax (fst (MultiSeries_append
      \<lparr>m_array = np_array1 ([] :: int list), m_deltax = None, m_y = None, m_isempty = True\<rparr>
      (SeriesObj \<lparr>s_value = np_array1 [1, 2, 3], s_deltax = Some (1 / 2), s_info = ''Series''\<rparr>)
      (KeyInt 7))) = Some (1 / 2) \<and>
   shape (m_array (fst (MultiSeries_append
      \<lparr>m_array = np_array1 ([] :: int list), m_deltax = None, m_y = None, m_isempty = True\<rparr>
      (SeriesObj \<lparr>s_value = np_array1 [1, 2, 3], s_deltax = Some (1 / 2), s_info = ''Series''\<rparr>)
      (KeyInt 7)))) = [1, 3]"
  using MultiSeries_append_mutates_then_raises by simp

text \<open>
  C3. The first append to an empty container never succeeds. The test
  \<^verbatim>\<open>if not isinstance(y, np.int) or not isinstance(y, np.float)\<close> holds for every key,
  since no object is both an \<^verbatim>\<open>int\<close> and a \<^verbatim>\<open>float\<close>: whatever the row and the key,
  the call raises, and the keys stay as they were (\<^verbatim>\<open>None\<close>); for a row given as a
  \<^verbatim>\<open>Series\<close> the exception is \<^verbatim>\<open>TypeError\<close>. The constructor tests the same two
  classes with \<^verbatim>\<open>isinstance(y, np.int) or isinstance(y, np.float)\<close>.
\<close>

theorem MultiSeries_first_append_always_raises:
  "snd (MultiSeries_append (self\<lparr>m_isempty := True\<rparr>) arg y) \<noteq> None \<and>
   m_y (fst (MultiSeries_append (self\<lparr>m_isempty := True\<rparr>) arg y)) = m_y self \<and>
   snd (MultiSeries_append (self\<lparr>m_isempty := True\<rparr>) (SeriesObj s) y) = Some TypeError"
  by (cases y; cases arg)
     (auto simp: MultiSeries_append_def isinstance_int_def isinstance_float_def Let_def
       split: sum.splits)

theorem MultiSeries_first_append_always_raises_witness:
  "snd (MultiSeries_append
      \<lparr>m_array = np_array1 ([] :: int list), m_deltax = None, m_y = None, m_isempty = True\<rparr>
      (SeriesObj \<lparr>s_value = np_array1 [1, 2, 3], s_deltax = Some (1 / 2), s_info = ''Series''\<rparr>)
      (KeyFloat 7)) = Some TypeError \<and>
   m_y (fst (MultiSeries_append
      \<lparr>m_array = np_array1 ([] :: int list), m_deltax = None, m_y = None, m_isempty = True\<rparr>
      (SeriesObj \<lparr>s_value = np_array1 [1, 2, 3], s_deltax = Some (1 / 2), s_info = ''Series''\<rparr>)
      (KeyFloat 7))) = None"
  using MultiSeries_first_append_always_raises
    [of "\<lparr>m_array = np_array1 ([] :: int list), m_deltax = None, m_y = None, m_isempty = True\<rparr>"
        "SeriesObj \<lparr>s_value = np_array1 [1, 2, 3], s_deltax = Some (1 / 2), s_info = ''Series''\<rparr>"
        "KeyFloat 7"
        "\<lparr>s_value = np_array1 [1, 2, 3], s_deltax = Some (1 / 2), s_info = ''Series''\<rparr>"]
  by simp

subsection \<open>TimeFreqSpectrum: iteration\<close>

text \<open>
  C4. Iteration of a spectrum that holds rows raises before it yields a pair. The
  spectrum is built with one row at frequency 5 and epoch 0, and a row with epoch 1 is
  appended at frequency 7: rows, keys \<open>[5, 7]\<close> and epochs \<open>[0, 1]\<close> are in step and the
  keys ascend. \<^verbatim>\<open>__iter__\<close> then reads \<^verbatim>\<open>self._info\<close> for the first pair, an attribute
  the object does not have, and ends with \<^verbatim>\<open>AttributeError\<close>.
\<close>

theorem TimeFreqSpectrum_iter_raises:
  "TimeFreqSpectrum_init (np_array1 [1, 2, 3 :: int]) (ArgInt 0) 10 (ArgInt 5) ''TimeFreqSpectrum''
     = Inr \<lparr>m_array = \<lparr>shape = [1, 3], flat = [1, 2, 3]\<rparr>, m_deltax = Some (1 / 10), m_y = Some [5],
            m_isempty = False, m_epoch = Some [0], m_info = None\<rparr> \<and>
   TimeFreqSpectrum_append
      \<lparr>m_array = \<lparr>shape = [1, 3], flat = [1, 2, 3 :: int]\<rparr>, m_deltax = Some (1 / 10), m_y = Some [5],
            m_isempty = False, m_epoch = Some [0], m_info = None\<rparr>
      (TSObj \<lparr>s_value = np_array1 [4, 5, 6], s_deltax = 1 / 10, s_info = ''TimeSeries'', s_epoch = 1\<rparr>)
      7 None None
     = (\<lparr>m_array = \<lparr>shape = [2, 3], flat = [1, 2, 3, 4, 5, 6]\<rparr>, m_deltax = Some (1 / 10),
         m_y = Some [5, 7], m_isempty = False, m_epoch = Some [0, 1], m_info = None\<rparr>, None) \<and>
   TimeFreqSpectrum_iter
      \<lparr>m_array = \<lparr>shape = [2, 3], flat = [1, 2, 3, 4, 5, 6 :: int]\<rparr>, m_deltax = Some (1 / 10),
         m_y = Some [5, 7], m_isempty = False, m_epoch = Some [0, 1], m_info = None\<rparr>
     = ([], Some AttributeError)"
  by code_simp

subsection \<open>TimeSeries: resample\<close>

text \<open>
  C5. \<^verbatim>\<open>TimeSeries.resample\<close> to another rate raises. The sequence has four samples,
  epoch 0 and rate 4 (the spacing 1/4 and its reciprocal are exact in binary floating
  point); \<^verbatim>\<open>resample(2)\<close> calls the kernel, whatever it is, and then reads
  \<^verbatim>\<open>self.info\<close>, which raises \<^verbatim>\<open>AttributeError\<close>.
\<close>

theorem TimeSeries_resample_raises:
  "TimeSeries_init (np_array1 [1, 2, 3, 4 :: int]) 0 4 ''TimeSeries''
     = Inr \<lparr>s_value = np_array1 [1, 2, 3, 4], s_deltax = 1 / 4, s_info = ''TimeSeries'', s_epoch = 0\<rparr> \<and>
   TimeSeries_fs
      \<lparr>s_value = np_array1 [1, 2, 3, 4 :: int], s_deltax = 1 / 4, s_info = ''TimeSeries'', s_epoch = 0\<rparr>
     = Inr 4 \<and>
   TimeSeries_resample rs
      \<lparr>s_value = np_array1 [1, 2, 3, 4 :: int], s_deltax = 1 / 4, s_info = ''TimeSeries'', s_epoch = 0\<rparr> 2
     = Inl AttributeError"
  by (simp add: TimeSeries_init_def Series_init_def np_array1_def TimeSeries_fs_def py_int_def
      TimeSeries_resample_def TimeSeries_info_def)

subsection \<open>Series: construction, slicing, resampling\<close>

text \<open>
  C6, as stated, fails: a two-dimensional buffer of shape \<open>(1, 3)\<close> is not
  one-dimensional, and the constructor accepts it.
\<close>

theorem Series_init_accepts_row_vector:
  "length (shape \<lparr>shape = [1, 3], flat = [1, 2, 3 :: int]\<rparr>) \<noteq> 1 \<and>
   Series_init \<lparr>shape = [1, 3], flat = [1, 2, 3 :: int]\<rparr> (1 / 2 :: real) ''Series''
     = Inr \<lparr>s_value = \<lparr>shape = [1, 3], flat = [1, 2, 3]\<rparr>, s_deltax = 1 / 2, s_info = ''Series''\<rparr>"
  by (simp add: Series_init_def)

text \<open>
  C6, amended. A buffer of two or more dimensions whose first dimension is not 1 is
  refused with the shape error; a buffer of two or more dimensions whose first
  dimension is 1 is accepted and stored as it is, and so is every one-dimensional
  buffer.
\<close>

theorem Series_init_shape_check:
  "(2 \<le> length (shape v) \<and> hd (shape v) \<noteq> 1 \<longrightarrow> Series_init v d i = Inl ShapeError) \<and>
   (2 \<le> length (shape v) \<and> hd (shape v) = 1 \<longrightarrow>
      Series_init v d i = Inr \<lparr>s_value = v, s_deltax = d, s_info = i\<rparr>) \<and>
   (length (shape v) = 1 \<longrightarrow>
      Series_init v d i = Inr \<lparr>s_value = v, s_deltax = d, s_info = i\<rparr>)"
  by (cases "shape v") (auto simp: Series_init_def)

theorem Series_init_shape_check_witness:
  "Series_init \<lparr>shape = [2, 2], flat = [1, 2, 3, 4 :: int]\<rparr> (1 / 2 :: real) ''Series''
     = Inl ShapeError \<and>
   Series_init \<lparr>shape = [1, 3], flat = [1, 2, 3 :: int]\<rparr> (1 / 2 :: real) ''Series''
     = Inr \<lparr>s_value = \<lparr>shape = [1, 3], flat = [1, 2, 3]\<rparr>, s_deltax = 1 / 2, s_info = ''Series''\<rparr> \<and>
   Series_init \<lparr>shape = [3], flat = [1, 2, 3 :: int]\<rparr> (1 / 2 :: real) ''Series''
     = Inr \<lparr>s_value = \<lparr>shape = [3], flat = [1, 2, 3]\<rparr>, s_deltax = 1 / 2, s_info = ''Series''\<rparr>"
  using Series_init_shape_check
      [of "\<lparr>shape = [2, 2], flat = [1, 2, 3, 4 :: int]\<rparr>" "1 / 2 :: real" "''Series''"]
    Series_init_shape_check
      [of "\<lparr>shape = [1, 3], flat = [1, 2, 3 :: int]\<rparr>" "1 / 2 :: real" "''Series''"]
    Series_init_shape_check
      [of "\<lparr>shape = [3], flat = [1, 2, 3 :: int]\<rparr>" "1 / 2 :: real" "''Series''"]
  by simp

text \<open>
  C7, as stated, fails: with the index array \<open>[1]\<close> the sequence over \<open>[10, 20, 30]\<close>
  returns the numpy array \<open>[20]\<close> of shape \<open>(1,)\<close>, not the scalar 20.
\<close>

theorem Series_getslice_single_index_not_scalar:
  "Series_getslice \<lparr>s_value = np_array1 [10, 20, 30 :: int], s_deltax = 1 / 2, s_info = ''Series''\<rparr>
      (ArrayIdx [1]) = Inr (RawArray (np_array1 [20])) \<and>
   Series_getslice \<lparr>s_value = np_array1 [10, 20, 30 :: int], s_deltax = 1 / 2, s_info = ''Series''\<rparr>
      (ArrayIdx [1]) \<noteq> Inr (Scalar 20)"
  by (simp add: Series_getslice_def np_fancy_def np_array1_def np_in_range_def np_take_def
      np_norm_index_def np_row_def)

text \<open>
  C7, amended. For a sequence over a one-dimensional buffer of \<open>n\<close> samples, slicing
  with an index array that holds one position \<open>i\<close> with \<open>-n \<le> i < n\<close> returns the
  raw numpy array of shape \<open>(1,)\<close> that holds the sample at that position (a negative
  position counting from the end): not wrapped in a sequence, and not a scalar.
\<close>

theorem Series_getslice_single_index:
  assumes "shape (s_value self) = [n]" and "wf_ndarray (s_value self)"
    and "np_in_range n i"
  shows "Series_getslice self (ArrayIdx [i])
     = Inr (RawArray \<lparr>shape = [1], flat = [flat (s_value self) ! np_norm_index n i]\<rparr>)"
proof -
  have "np_norm_index n i < n"
    using assms(3) by (auto simp: np_in_range_def np_norm_index_def)
  then have "np_row (s_value self) (np_norm_index n i) = [flat (s_value self) ! np_norm_index n i]"
    using assms(1,2) by (simp add: np_row_1d wf_ndarray_def)
  then show ?thesis
    using assms(1,3) by (simp add: Series_getslice_def np_fancy_def np_take_def)
qed

theorem Series_getslice_single_index_witness:
  "shape (s_value \<lparr>s_value = np_array1 [10, 20, 30 :: int], s_deltax = 1 / 2 :: real, s_info = ''Series''\<rparr>) = [3] \<and>
   wf_ndarray (np_array1 [10, 20, 30 :: int]) \<and> np_in_range 3 (- 1) \<and>
   Series_getslice \<lparr>s_value = np_array1 [10, 20, 30 :: int], s_deltax = 1 / 2, s_info = ''Series''\<rparr>
      (ArrayIdx [- 1]) = Inr (RawArray \<lparr>shape = [1], flat = [30]\<rparr>)"
proof -
  let ?s = "\<lparr>s_value = np_array1 [10, 20, 30 :: int], s_deltax = 1 / 2 :: real, s_info = ''Series''\<rparr>"
  have a: "shape (s_value ?s) = [3]" by (simp add: np_array1_def)
  have b: "wf_ndarray (s_value ?s)" by (simp add: np_array1_def wf_ndarray_def)
  have c: "np_in_range 3 (- 1)" by (simp add: np_in_range_def)
  from Series_getslice_single_index[OF a b c] a b c show ?thesis
    by (simp add: np_norm_index_def np_array1_def)
qed

text \<open>
  C8. \<^verbatim>\<open>resample(new_deltax)\<close> returns the receiver itself when the spacing is the
  current one. Otherwise (both spacings non-zero, so that the two divisions are
  defined) it calls the kernel on the stored buffer with the rates \<open>1 / deltax\<close> and
  \<open>1 / new_deltax\<close> and, the kernel returning a one-dimensional buffer as its contract
  says, returns a new sequence over that buffer with the spacing \<open>new_deltax\<close> and the
  label of the receiver.
\<close>

theorem Series_resample_contract:
  "(new_deltax = s_deltax self \<longrightarrow> Series_resample rs self new_deltax = Inr Self) \<and>
   (new_deltax \<noteq> s_deltax self \<and> s_deltax self \<noteq> 0 \<and> new_deltax \<noteq> 0 \<and>
    length (shape (rs (s_value self) (1 / s_deltax self) (1 / new_deltax))) = 1 \<longrightarrow>
      Series_resample rs self new_deltax
        = Inr (New \<lparr>s_value = rs (s_value self) (1 / s_deltax self) (1 / new_deltax),
                     s_deltax = new_deltax, s_info = s_info self\<rparr>))"
  by (cases "shape (rs (s_value self) (1 / s_deltax self) (1 / new_deltax))")
     (auto simp: Series_resample_def Series_init_def Let_def)

theorem Series_resample_contract_witness:
  "Series_resample (\<lambda>v r1 r2. np_array1 (take (nat \<lfloor>real (np_size v) * r2 / r1\<rfloor>) (flat v)))
      \<lparr>s_value = np_array1 [1, 2, 3, 4 :: int], s_deltax = 1 / 2, s_info = ''Series''\<rparr> (1 / 2)
     = Inr Self \<and>
   Series_resample (\<lambda>v r1 r2. np_array1 (take (nat \<lfloor>real (np_size v) * r2 / r1\<rfloor>) (flat v)))
      \<lparr>s_value = np_array1 [1, 2, 3, 4 :: int], s_deltax = 1 / 2, s_info = ''Series''\<rparr> 1
     = Inr (New \<lparr>s_value = np_array1 [1, 2], s_deltax = 1, s_info = ''Series''\<rparr>)"
  using Series_resample_contract
      [of "1 / 2" "\<lparr>s_value = np_array1 [1, 2, 3, 4 :: int], s_deltax = 1 / 2, s_info = ''Series''\<rparr>"
          "\<lambda>v r1 r2. np_array1 (take (nat \<lfloor>real (np_size v) * r2 / r1\<rfloor>) (flat v))"]
    Series_resample_contract
      [of 1 "\<lparr>s_value = np_array1 [1, 2, 3, 4 :: int], s_deltax = 1 / 2, s_info = ''Series''\<rparr>"
          "\<lambda>v r1 r2. np_array1 (take (nat \<lfloor>real (np_size v) * r2 / r1\<rfloor>) (flat v))"]
  by (simp add: np_array1_def np_size_def)

text \<open>
  C9, as stated, fails: the constructor accepts the buffer \<open>[[1, 2, 3]]\<close> of shape
  \<open>(1, 3)\<close>, which has three elements; with the spacing 1/2 the length of the sequence
  is \<open>1/2 * len = 1/2\<close>, not \<open>1/2 * 3\<close>, and the slice \<^verbatim>\<open>[1::2]\<close> yields no result:
  it selects no row, and the constructor refuses the shape \<open>(0, 3)\<close>.
\<close>

theorem Series_row_vector_length_and_slice:
  "Series_init \<lparr>shape = [1, 3], flat = [1, 2, 3 :: int]\<rparr> (1 / 2 :: real) ''Series''
     = Inr \<lparr>s_value = \<lparr>shape = [1, 3], flat = [1, 2, 3]\<rparr>, s_deltax = 1 / 2, s_info = ''Series''\<rparr> \<and>
   np_size \<lparr>shape = [1, 3], flat = [1, 2, 3 :: int]\<rparr> = 3 \<and>
   Series_length \<lparr>s_value = \<lparr>shape = [1, 3], flat = [1, 2, 3 :: int]\<rparr>, s_deltax = 1 / 2,
        s_info = ''Series''\<rparr> = Inr (1 / 2) \<and>
   Series_length \<lparr>s_value = \<lparr>shape = [1, 3], flat = [1, 2, 3 :: int]\<rparr>, s_deltax = 1 / 2,
        s_info = ''Series''\<rparr> \<noteq> Inr (1 / 2 * 3) \<and>
   Series_getslice \<lparr>s_value = \<lparr>shape = [1, 3], flat = [1, 2, 3 :: int]\<rparr>, s_deltax = 1 / 2,
        s_info = ''Series''\<rparr> (SliceIdx (Some 1) None (Some 2)) = Inl ShapeError"
  by (simp add: Series_init_def np_size_def Series_length_def Series_len_def np_len_def
      Series_getslice_def py_float_of_int_def np_getslice_def slice_indices_def slice_adjust_def
      np_take_def Let_def)

text \<open>
  C9, amended. For every one-dimensional buffer \<open>v\<close> and every spacing, the sequence
  is built and its length is the spacing times the element count of \<open>v\<close>. A slice
  with the step \<open>st\<close> that returns, returns a sequence whose spacing is the spacing
  times \<open>st\<close>; on a one-dimensional buffer every slice returns whose start is absent or
  not negative and whose step is not 0 and small enough to be converted to a float.
  The sequence over \<open>[1, 2, 3, 4]\<close> with spacing 1/2, sliced \<^verbatim>\<open>[::2]\<close>, is the
  sequence over \<open>[1, 3]\<close> with spacing 1. (Products of floats are read as products of
  reals.)
\<close>

theorem Series_length_and_slice_spacing:
  "(length (shape v) = 1 \<longrightarrow>
      Series_init v spacing info = Inr \<lparr>s_value = v, s_deltax = spacing, s_info = info\<rparr> \<and>
      Series_length \<lparr>s_value = v, s_deltax = spacing, s_info = info\<rparr>
        = Inr (spacing * real (np_size v))) \<and>
   (Series_getslice s (SliceIdx start stop (Some st)) = Inr r \<longrightarrow>
      (\<exists>t. r = Wrapped t \<and> s_deltax t = s_deltax s * real_of_int st)) \<and>
   (length (shape (s_value s)) = 1 \<and> (start = None \<or> (\<exists>k\<ge>0. start = Some k)) \<and> st \<noteq> 0 \<and>
    \<bar>st\<bar> < 2 ^ 1024 - 2 ^ 970 \<longrightarrow>
      (\<exists>t. Series_getslice s (SliceIdx start stop (Some st)) = Inr (Wrapped t))) \<and>
   Series_getslice \<lparr>s_value = np_array1 [1, 2, 3, 4 :: int], s_deltax = 1 / 2, s_info = ''Series''\<rparr>
      (SliceIdx None None (Some 2))
     = Inr (Wrapped \<lparr>s_value = np_array1 [1, 3], s_deltax = 1, s_info = ''Series''\<rparr>)"
proof (intro conjI impI)
  assume one: "length (shape v) = 1"
  then show "Series_init v spacing info = Inr \<lparr>s_value = v, s_deltax = spacing, s_info = info\<rparr>"
    by (rule Series_init_1d)
  then show "Series_length \<lparr>s_value = v, s_deltax = spacing, s_info = info\<rparr>
        = Inr (spacing * real (np_size v))"
    using one by (rule Series_length_init_1d)
next
  assume "Series_getslice s (SliceIdx start stop (Some st)) = Inr r"
  then show "\<exists>t. r = Wrapped t \<and> s_deltax t = s_deltax s * real_of_int st"
    by (rule slice_spacing)
next
  assume h: "length (shape (s_value s)) = 1 \<and> (start = None \<or> (\<exists>k\<ge>0. start = Some k)) \<and> st \<noteq> 0 \<and>
    \<bar>st\<bar> < 2 ^ 1024 - 2 ^ 970"
  then obtain n where "shape (s_value s) = [n]"
    by (cases "shape (s_value s)") auto
  with h show "\<exists>t. Series_getslice s (SliceIdx start stop (Some st)) = Inr (Wrapped t)"
    using slice_returns_1d by blast
next
  show "Series_getslice \<lparr>s_value = np_array1 [1, 2, 3, 4 :: int], s_deltax = 1 / 2, s_info = ''Series''\<rparr>
      (SliceIdx None None (Some 2))
     = Inr (Wrapped \<lparr>s_value = np_array1 [1, 3], s_deltax = 1, s_info = ''Series''\<rparr>)"
    by (rule slice_scenario)
qed

theorem Series_length_and_slice_spacing_witness:
  "length (shape (np_array1 [1, 2, 3, 4 :: int])) = 1 \<and>
   Series_init (np_array1 [1, 2, 3, 4 :: int]) (1 / 2 :: real) ''Series''
     = Inr \<lparr>s_value = np_array1 [1, 2, 3, 4], s_deltax = 1 / 2, s_info = ''Series''\<rparr> \<and>
   Series_length \<lparr>s_value = np_array1 [1, 2, 3, 4 :: int], s_deltax = 1 / 2, s_info = ''Series''\<rparr>
     = Inr 2 \<and>
   (\<exists>t. Series_getslice \<lparr>s_value = np_array1 [1, 2, 3, 4 :: int], s_deltax = 1 / 2, s_info = ''Series''\<rparr>
          (SliceIdx (Some 1) None (Some 3)) = Inr (Wrapped t) \<and> s_deltax t = 3 / 2)"
proof -
  let ?v = "np_array1 [1, 2, 3, 4 :: int]"
  let ?s = "\<lparr>s_value = ?v, s_deltax = 1 / 2 :: real, s_info = ''Series''\<rparr>"
  note th = Series_length_and_slice_spacing[of ?v "1 / 2" "''Series''" ?s "Some 1" None 3]
  have one: "length (shape ?v) = 1" by (simp add: np_array1_def)
  from th one have i: "Series_init ?v (1 / 2 :: real) ''Series'' = Inr ?s"
    and l: "Series_length ?s = Inr ((1 / 2) * real (np_size ?v))" by blast+
  from l have len: "Series_length ?s = Inr 2" by (simp add: np_size_def np_array1_def)
  have "length (shape (s_value ?s)) = 1 \<and> (Some (1::int) = None \<or> (\<exists>k\<ge>0. Some (1::int) = Some k)) \<and>
      (3::int) \<noteq> 0 \<and> \<bar>3::int\<bar> < 2 ^ 1024 - 2 ^ 970"
    by (simp add: np_array1_def)
  with th obtain t where t: "Series_getslice ?s (SliceIdx (Some 1) None (Some 3)) = Inr (Wrapped t)"
    by blast
  with th have "s_deltax t = s_deltax ?s * real_of_int 3" by blast
  then have "s_deltax t = 3 / 2" by simp
  with one i len t show ?thesis by blast
qed

end
